theory Spec2Isabelle
  imports Main "HOL-Library.Word"
begin

section \<open>Argue: a shallow embedding of \<^verbatim>\<open>argue.hpp\<close>\<close>

text \<open>
  The development follows the header: the character helpers, the \<^verbatim>\<open>TextBuilder\<close>,
  the option and positional-argument families, and the parser's token loop. The
  rendering of hints and help pages (\<^verbatim>\<open>WriteHint\<close>, \<^verbatim>\<open>WriteHelp\<close>,
  \<^verbatim>\<open>HelpCommand\<close>) and the class \<^verbatim>\<open>FlagGroupOption\<close> are not part of it.
  A \<^verbatim>\<open>std::string\<close> and a \<^verbatim>\<open>std::string_view\<close> are a \<open>string\<close>; a
  \<^verbatim>\<open>size_t\<close> is a natural number below \<open>2 ^ 64\<close> with the wrap-around written out
  where the source computes with it; every member function that writes to its
  object returns the updated object.
\<close>

subsection \<open>Strings and characters\<close>

definition SPACE_CHARS :: string where
  "SPACE_CHARS = [CHR '' '', CHR 0x0C, CHR ''\<newline>'', CHR 0x0D, CHR 0x09, CHR 0x0B]"

definition IsSpace :: "char \<Rightarrow> bool" where
  "IsSpace ch = (ch \<in> set SPACE_CHARS)"

text \<open>\<^verbatim>\<open>std::string_view::starts_with\<close>, \<^verbatim>\<open>find\<close> and \<^verbatim>\<open>find_first_of\<close>
  (\<open>None\<close> is \<^verbatim>\<open>npos\<close>).\<close>

fun starts_with :: "string \<Rightarrow> string \<Rightarrow> bool" where
  "starts_with s [] = True"
| "starts_with [] (p # ps) = False"
| "starts_with (c # s) (p # ps) = (c = p \<and> starts_with s ps)"

fun find_first_of :: "string \<Rightarrow> string \<Rightarrow> nat option" where
  "find_first_of [] cs = None"
| "find_first_of (c # s) cs =
     (if c \<in> set cs then Some 0 else map_option Suc (find_first_of s cs))"

definition find_char :: "string \<Rightarrow> char \<Rightarrow> nat option" where
  "find_char s ch = find_first_of s [ch]"

text \<open>\<^verbatim>\<open>while (!s.empty() && IsSpace(s.back())) s.pop_back();\<close>\<close>

function pop_back_spaces :: "string \<Rightarrow> string" where
  "pop_back_spaces s =
     (if s \<noteq> [] \<and> IsSpace (last s) then pop_back_spaces (butlast s) else s)"
  by pat_completeness auto
termination
  by (relation "measure length") auto

declare pop_back_spaces.simps [simp del]

text \<open>Unsigned subtraction and increment on \<^verbatim>\<open>size_t\<close> (64 bits).\<close>

definition size_t_sub :: "nat \<Rightarrow> nat \<Rightarrow> nat" where
  "size_t_sub a b = (if b \<le> a then a - b else a + 2 ^ 64 - b)"

definition size_t_add :: "nat \<Rightarrow> nat \<Rightarrow> nat" where
  "size_t_add a b = (a + b) mod 2 ^ 64"

definition size_t_mul :: "nat \<Rightarrow> nat \<Rightarrow> nat" where
  "size_t_mul a b = (a * b) mod 2 ^ 64"

subsection \<open>TextBuilder\<close>

record TextBuilder =
  m_Text :: string
  m_IndentationLevel :: nat
  m_CurrentLine :: string
  m_CurrentLineIndentLength :: nat
  m_Indent :: string
  m_IndentOnWrap :: bool
  m_MaxParagraphWidth :: nat

text \<open>The constructor, and the constructor with its default arguments.\<close>

definition TextBuilder_ctor :: "string \<Rightarrow> bool \<Rightarrow> nat \<Rightarrow> TextBuilder" where
  "TextBuilder_ctor indent indentOnWrap maxParagraphWidth =
     \<lparr> m_Text = [], m_IndentationLevel = 0, m_CurrentLine = [],
       m_CurrentLineIndentLength = 0, m_Indent = indent,
       m_IndentOnWrap = indentOnWrap, m_MaxParagraphWidth = maxParagraphWidth \<rparr>"

definition TextBuilder_default :: TextBuilder where
  "TextBuilder_default = TextBuilder_ctor ''  '' True 80"

definition NewLine :: "TextBuilder \<Rightarrow> TextBuilder" where
  "NewLine tb =
     (if length (m_CurrentLine tb) > 0 then
        (let text1 = (if m_Text tb \<noteq> [] then m_Text tb @ [CHR ''\<newline>''] else m_Text tb);
             line1 = pop_back_spaces (m_CurrentLine tb)
         in tb\<lparr> m_Text := text1 @ line1,
                m_CurrentLineIndentLength := 0,
                m_CurrentLine := [] \<rparr>)
      else tb)"

definition Spacer :: "TextBuilder \<Rightarrow> TextBuilder" where
  "Spacer tb =
     (let tb1 = NewLine tb
      in if \<not> (m_Text tb1 \<noteq> [] \<and> last (m_Text tb1) = CHR ''\<newline>'')
         then tb1\<lparr> m_Text := m_Text tb1 @ [CHR ''\<newline>''] \<rparr>
         else tb1)"

definition Indent :: "TextBuilder \<Rightarrow> TextBuilder" where
  "Indent tb = tb\<lparr> m_IndentationLevel := size_t_add (m_IndentationLevel tb) 1 \<rparr>"

definition DeIndent :: "TextBuilder \<Rightarrow> TextBuilder" where
  "DeIndent tb =
     (if m_IndentationLevel tb > 0
      then tb\<lparr> m_IndentationLevel := m_IndentationLevel tb - 1 \<rparr>
      else tb)"

text \<open>\<^verbatim>\<open>Build\<close> assigns to no member: the builder it returns is the one it was given.\<close>

definition Build :: "TextBuilder \<Rightarrow> string \<times> TextBuilder" where
  "Build tb =
     (let result = (if m_Text tb = [] then m_CurrentLine tb
                    else m_Text tb @ [CHR ''\<newline>''] @ m_CurrentLine tb)
      in (pop_back_spaces result @ [CHR ''\<newline>''], tb))"

definition PutLineIndent :: "TextBuilder \<Rightarrow> bool \<Rightarrow> TextBuilder" where
  "PutLineIndent tb hasWrapped =
     (if m_CurrentLine tb = [] then
        (let tb1 = tb\<lparr> m_CurrentLineIndentLength :=
                          size_t_mul (m_IndentationLevel tb) (length (m_Indent tb)) \<rparr>;
             tb2 = (if hasWrapped \<and> m_IndentOnWrap tb1
                    then tb1\<lparr> m_CurrentLineIndentLength :=
                                 size_t_add (m_CurrentLineIndentLength tb1) (length (m_Indent tb1)),
                               m_CurrentLine := m_CurrentLine tb1 @ m_Indent tb1 \<rparr>
                    else tb1)
         in tb2\<lparr> m_CurrentLine :=
                    m_CurrentLine tb2 @ concat (replicate (m_IndentationLevel tb2) (m_Indent tb2)) \<rparr>)
      else tb)"

function PutLine :: "TextBuilder \<Rightarrow> string \<Rightarrow> TextBuilder" where
  "PutLine tb text =
     (let currentLineWidth =
            size_t_sub (length (m_CurrentLine tb)) (m_CurrentLineIndentLength tb);
          hasWrapped = (m_CurrentLine tb \<noteq> [] \<and>
                        currentLineWidth \<ge> m_MaxParagraphWidth tb \<and>
                        (IsSpace (last (m_CurrentLine tb)) \<or>
                         (text \<noteq> [] \<and> IsSpace (hd text))));
          tb1 = (if hasWrapped then NewLine tb else tb);
          tb2 = PutLineIndent tb1 hasWrapped
      in case find_first_of text SPACE_CHARS of
           None \<Rightarrow> tb2\<lparr> m_CurrentLine := m_CurrentLine tb2 @ text \<rparr>
         | Some nextWordIdx \<Rightarrow>
             PutLine
               (if nextWordIdx > 0
                then tb2\<lparr> m_CurrentLine :=
                             m_CurrentLine tb2 @ take nextWordIdx text @ [CHR '' ''] \<rparr>
                else if \<not> hasWrapped
                then tb2\<lparr> m_CurrentLine := m_CurrentLine tb2 @ [CHR '' ''] \<rparr>
                else tb2)
               (drop (nextWordIdx + 1) text))"
  by pat_completeness auto
termination
  by (relation "measure (\<lambda>(tb, text). length text)")
     (auto elim: find_first_of.elims)

declare PutLine.simps [simp del]

function PutText :: "TextBuilder \<Rightarrow> string \<Rightarrow> TextBuilder" where
  "PutText tb text =
     (case find_char text (CHR ''\<newline>'') of
        Some newLineIdx \<Rightarrow>
          PutText (NewLine (PutLine tb (take newLineIdx text))) (drop (newLineIdx + 1) text)
      | None \<Rightarrow> PutLine tb text)"
  by pat_completeness auto
termination
  by (relation "measure (\<lambda>(tb, text). length text)")
     (auto simp: find_char_def elim: find_first_of.elims)

declare PutText.simps [simp del]

subsection \<open>The root parser's own members\<close>

text \<open>
  Class \<^verbatim>\<open>ArgParser\<close> adds the two prefixes and the error message to
  \<^verbatim>\<open>IArgParser\<close>. A \<^verbatim>\<open>CommandParser\<close> forwards \<^verbatim>\<open>GetError\<close>,
  \<^verbatim>\<open>SetError\<close>, \<^verbatim>\<open>HasError\<close>, \<^verbatim>\<open>GetPrefix\<close> and
  \<^verbatim>\<open>GetShortPrefix\<close> to its parent, and an option or positional argument forwards
  \<^verbatim>\<open>SetError\<close> to its parser, so every node of a tree reads and writes the root's
  members. They are passed to, and returned by, every function that can reach them.
\<close>

record Root =
  m_Prefix :: string
  m_ShortPrefix :: string
  m_ErrorMessage :: string

definition GetError :: "Root \<Rightarrow> string" where
  "GetError r = m_ErrorMessage r"

text \<open>\<^verbatim>\<open>SetError\<close> always returns false; the callers below return \<open>False\<close>
  together with the root it gives back.\<close>

definition SetError :: "Root \<Rightarrow> string \<Rightarrow> Root" where
  "SetError r errorMessage = r\<lparr> m_ErrorMessage := errorMessage \<rparr>"

definition HasError :: "Root \<Rightarrow> bool" where
  "HasError r = (m_ErrorMessage r \<noteq> [])"

definition GetPrefix :: "Root \<Rightarrow> string" where
  "GetPrefix r = m_Prefix r"

definition GetShortPrefix :: "Root \<Rightarrow> string" where
  "GetShortPrefix r = m_ShortPrefix r"

definition HasShortPrefix :: "Root \<Rightarrow> bool" where
  "HasShortPrefix r = (length (GetShortPrefix r) > 0)"

definition apostrophe :: string where
  "apostrophe = [CHR 0x27]"

subsection \<open>Integer conversion\<close>

text \<open>
  \<^verbatim>\<open>std::from_chars(first, last, value, 10)\<close> for \<^verbatim>\<open>int64_t\<close> belongs to the C++
  standard library, not to the repository. It is written here after the C++ standard
  (charconv.from.chars): the pattern is an optional minus sign followed by decimal
  digits, with no leading white space and no plus sign; the longest matching prefix is
  converted. If nothing matches, \<^verbatim>\<open>ptr\<close> is \<^verbatim>\<open>first\<close>, the error code is
  \<^verbatim>\<open>invalid_argument\<close> and \<^verbatim>\<open>value\<close> is not written. Otherwise \<^verbatim>\<open>ptr\<close> is
  the first character that does not match; if the number does not fit the type the error
  code is \<^verbatim>\<open>result_out_of_range\<close> and \<^verbatim>\<open>value\<close> is not written.
  \<^verbatim>\<open>ptr\<close> is given as an offset from \<^verbatim>\<open>first\<close>, and the written value as
  \<open>Some\<close> (\<open>None\<close>: not written).
\<close>

datatype errc = errc_ok | invalid_argument | result_out_of_range

definition is_digit :: "char \<Rightarrow> bool" where
  "is_digit c = (48 \<le> (of_char c :: nat) \<and> (of_char c :: nat) \<le> 57)"

definition decimal_value :: "string \<Rightarrow> nat" where
  "decimal_value ds = foldl (\<lambda>acc c. 10 * acc + ((of_char c :: nat) - 48)) 0 ds"

definition from_chars :: "string \<Rightarrow> nat \<times> errc \<times> 64 word option" where
  "from_chars s =
     (let negative = (s \<noteq> [] \<and> hd s = CHR ''-'');
          digits = takeWhile is_digit (if negative then tl s else s)
      in if digits = [] then (0, invalid_argument, None)
         else
           (let n = (if negative then - int (decimal_value digits)
                     else int (decimal_value digits));
                ptr = (if negative then 1 else 0) + length digits
            in if - (2 ^ 63) \<le> n \<and> n < 2 ^ 63
               then (ptr, errc_ok, Some (word_of_int n))
               else (ptr, result_out_of_range, None)))"

subsection \<open>Options\<close>

text \<open>
  The members each concrete option class adds to \<^verbatim>\<open>IOption\<close>. The
  \<^verbatim>\<open>int64_t m_Value\<close> of an \<^verbatim>\<open>IntOption\<close> is \<open>Some\<close> of a 64-bit word, or
  \<open>None\<close> once it has been assigned from a local variable that was never written.
  Class \<^verbatim>\<open>FlagGroupOption\<close>, a flag that also writes the value of the flags it
  points to, is not part of the development: it inherits \<^verbatim>\<open>FlagOption::ParseArg\<close>
  and the value of a flag is read by no function below.
\<close>

datatype OptionMembers =
    FlagOption bool bool
  | IntOption "64 word option" bool "64 word"
  | StrOption string bool string
  | ChoiceOption nat "string list" bool nat
  | CollectionOption "string list" bool

record IOption =
  m_WasParsed :: bool
  m_Name :: string
  m_ShortName :: string
  m_MetaVar :: string
  m_Description :: string
  m_Members :: OptionMembers

definition IOption_ctor ::
  "string \<Rightarrow> string \<Rightarrow> string \<Rightarrow> string \<Rightarrow> OptionMembers \<Rightarrow> IOption" where
  "IOption_ctor name shortName metaVar description members =
     \<lparr> m_WasParsed = False, m_Name = name, m_ShortName = shortName,
       m_MetaVar = metaVar, m_Description = description, m_Members = members \<rparr>"

text \<open>The objects the constructors build; registration with the parser
  (\<^verbatim>\<open>AddOption\<close>) follows the parser's definition.\<close>

definition FlagOption_ctor :: "string \<Rightarrow> string \<Rightarrow> string \<Rightarrow> bool \<Rightarrow> IOption" where
  "FlagOption_ctor name shortName description defaultValue =
     IOption_ctor name shortName [] description (FlagOption defaultValue defaultValue)"

definition IntOption_ctor :: "string \<Rightarrow> string \<Rightarrow> string \<Rightarrow> string \<Rightarrow> IOption" where
  "IntOption_ctor name shortName metaVar description =
     IOption_ctor name shortName metaVar description (IntOption (Some 0) False 0)"

definition IntOption_ctor_default ::
  "string \<Rightarrow> string \<Rightarrow> string \<Rightarrow> string \<Rightarrow> 64 word \<Rightarrow> IOption" where
  "IntOption_ctor_default name shortName metaVar description defaultValue =
     IOption_ctor name shortName metaVar description (IntOption (Some 0) True defaultValue)"

definition StrOption_ctor :: "string \<Rightarrow> string \<Rightarrow> string \<Rightarrow> string \<Rightarrow> IOption" where
  "StrOption_ctor name shortName metaVar description =
     IOption_ctor name shortName metaVar description (StrOption [] False [])"

definition StrOption_ctor_default ::
  "string \<Rightarrow> string \<Rightarrow> string \<Rightarrow> string \<Rightarrow> string \<Rightarrow> IOption" where
  "StrOption_ctor_default name shortName metaVar description defaultValue =
     IOption_ctor name shortName metaVar description (StrOption [] True defaultValue)"

definition ChoiceOption_ctor ::
  "string \<Rightarrow> string \<Rightarrow> string \<Rightarrow> string \<Rightarrow> string list \<Rightarrow> IOption" where
  "ChoiceOption_ctor name shortName metaVar description choices =
     IOption_ctor name shortName metaVar description (ChoiceOption 0 choices False 0)"

definition ChoiceOption_ctor_default ::
  "string \<Rightarrow> string \<Rightarrow> string \<Rightarrow> string \<Rightarrow> string list \<Rightarrow> nat \<Rightarrow> IOption" where
  "ChoiceOption_ctor_default name shortName metaVar description choices defaultChoiceIdx =
     IOption_ctor name shortName metaVar description
       (ChoiceOption 0 choices True
          (if choices \<noteq> []
           then (if defaultChoiceIdx < length choices then defaultChoiceIdx
                 else length choices - 1)
           else 0))"

definition CollectionOption_ctor ::
  "string \<Rightarrow> string \<Rightarrow> string \<Rightarrow> string \<Rightarrow> bool \<Rightarrow> IOption" where
  "CollectionOption_ctor name shortName metaVar description acceptEmptyValues =
     IOption_ctor name shortName metaVar description (CollectionOption [] acceptEmptyValues)"

definition HasMetaVar :: "IOption \<Rightarrow> bool" where
  "HasMetaVar opt = (m_MetaVar opt \<noteq> [])"

definition HasShortName :: "IOption \<Rightarrow> bool" where
  "HasShortName opt = (m_ShortName opt \<noteq> [])"

definition WasParsed :: "IOption \<Rightarrow> bool" where
  "WasParsed opt = m_WasParsed opt"

definition HasDefaultValue :: "IOption \<Rightarrow> bool" where
  "HasDefaultValue opt =
     (case m_Members opt of
        FlagOption v d \<Rightarrow> True
      | IntOption v hasDefault d \<Rightarrow> hasDefault
      | StrOption v hasDefault d \<Rightarrow> hasDefault
      | ChoiceOption i choices hasDefault d \<Rightarrow> hasDefault
      | CollectionOption vs acceptEmpty \<Rightarrow> True)"

definition IsVarOptional :: "IOption \<Rightarrow> bool" where
  "IsVarOptional opt =
     (case m_Members opt of
        FlagOption v d \<Rightarrow> True
      | IntOption v hasDefault d \<Rightarrow> False
      | StrOption v hasDefault d \<Rightarrow> False
      | ChoiceOption i choices hasDefault d \<Rightarrow> False
      | CollectionOption vs acceptEmpty \<Rightarrow> acceptEmpty)"

definition HasValue :: "IOption \<Rightarrow> bool" where
  "HasValue opt = (WasParsed opt \<or> HasDefaultValue opt)"

text \<open>The value accessors of the concrete classes; each is a member of its own class
  only, so each has the one equation.\<close>

fun FlagOption_GetValue :: "IOption \<Rightarrow> bool" where
  "FlagOption_GetValue opt = (case m_Members opt of FlagOption v d \<Rightarrow> v)"

fun IntOption_GetValue :: "IOption \<Rightarrow> 64 word option" where
  "IntOption_GetValue opt =
     (case m_Members opt of
        IntOption v hasDefault d \<Rightarrow> if WasParsed opt then v else Some d)"

fun StrOption_GetValue :: "IOption \<Rightarrow> string" where
  "StrOption_GetValue opt =
     (case m_Members opt of
        StrOption v hasDefault d \<Rightarrow> if WasParsed opt then v else d)"

fun ChoiceOption_GetDefaultValue :: "IOption \<Rightarrow> string" where
  "ChoiceOption_GetDefaultValue opt =
     (case m_Members opt of
        ChoiceOption i choices hasDefault d \<Rightarrow>
          if choices = [] \<or> \<not> hasDefault then [] else choices ! d)"

fun ChoiceOption_GetValue :: "IOption \<Rightarrow> string" where
  "ChoiceOption_GetValue opt =
     (case m_Members opt of
        ChoiceOption i choices hasDefault d \<Rightarrow>
          if choices = [] then []
          else if WasParsed opt then choices ! i
          else choices ! d)"


text \<open>\<^verbatim>\<open>FlagOption::SetValue\<close>.\<close>

definition SetValue :: "IOption \<Rightarrow> bool \<Rightarrow> IOption" where
  "SetValue opt flag =
     (case m_Members opt of
        FlagOption v d \<Rightarrow> opt\<lparr> m_Members := FlagOption flag d \<rparr>
      | _ \<Rightarrow> opt)"

text \<open>\<^verbatim>\<open>IOption::ConsumeName\<close> returns its result and the argument it was given by
  reference, shortened when the name was found.\<close>

definition ConsumeName :: "IOption \<Rightarrow> string \<Rightarrow> bool \<Rightarrow> bool \<times> string" where
  "ConsumeName opt arg isShort =
     (if isShort then
        (if \<not> HasShortName opt \<or> \<not> starts_with arg (m_ShortName opt) then (False, arg)
         else (True, drop (length (m_ShortName opt)) arg))
      else if \<not> starts_with arg (m_Name opt) then (False, arg)
      else (True, drop (length (m_Name opt)) arg))"

text \<open>
  \<^verbatim>\<open>IntOption::ParseValue\<close>. The local \<^verbatim>\<open>value\<close> is declared without an
  initialiser, so what is stored is what \<^verbatim>\<open>from_chars\<close> wrote, if it wrote.
  For an empty \<^verbatim>\<open>val\<close> the source forms \<^verbatim>\<open>&val.front()\<close> and
  \<^verbatim>\<open>&val.back()+1\<close> of an empty view; the model takes both to be the same address,
  which is what the pointer arithmetic yields.
\<close>

definition IntOption_ParseValue :: "Root \<Rightarrow> IOption \<Rightarrow> string \<Rightarrow> bool \<times> Root \<times> IOption" where
  "IntOption_ParseValue r opt val =
     (case m_Members opt of
        IntOption v hasDefault d \<Rightarrow>
          (case from_chars val of
             (ptr, ec, value) \<Rightarrow>
               if ptr \<noteq> length val
               then (False,
                     SetError r (''Expected integer for '' @ apostrophe @ GetPrefix r @ m_Name opt
                                 @ apostrophe @ '', got '' @ apostrophe @ val @ apostrophe @ ''.''),
                     opt)
               else (True, r, opt\<lparr> m_Members := IntOption value hasDefault d \<rparr>)))"

definition StrOption_ParseValue :: "Root \<Rightarrow> IOption \<Rightarrow> string \<Rightarrow> bool \<times> Root \<times> IOption" where
  "StrOption_ParseValue r opt val =
     (case m_Members opt of
        StrOption v hasDefault d \<Rightarrow> (True, r, opt\<lparr> m_Members := StrOption val hasDefault d \<rparr>))"

definition GetChoiceString :: "IOption \<Rightarrow> string" where
  "GetChoiceString opt =
     (case m_Members opt of
        ChoiceOption i choices hasDefault d \<Rightarrow>
          (let result = foldl (\<lambda>result choice. result @ choice @ '','') ''{'' choices
           in if last result = CHR '',''
              then butlast result @ ''}''
              else result @ ''}''))"

text \<open>The index loop of \<^verbatim>\<open>ChoiceOption::ParseValue\<close>, from index \<open>i\<close> on.\<close>

fun find_choice :: "string list \<Rightarrow> string \<Rightarrow> nat \<Rightarrow> nat option" where
  "find_choice [] val i = None"
| "find_choice (choice # choices) val i =
     (if choice = val then Some i else find_choice choices val (i + 1))"

definition ChoiceOption_ParseValue :: "Root \<Rightarrow> IOption \<Rightarrow> string \<Rightarrow> bool \<times> Root \<times> IOption" where
  "ChoiceOption_ParseValue r opt val =
     (case m_Members opt of
        ChoiceOption i choices hasDefault d \<Rightarrow>
          (case find_choice choices val 0 of
             Some j \<Rightarrow> (True, r, opt\<lparr> m_Members := ChoiceOption j choices hasDefault d \<rparr>)
           | None \<Rightarrow>
               (False,
                SetError r (''Expected one of '' @ GetChoiceString opt @ '' for '' @ apostrophe
                            @ GetPrefix r @ m_Name opt @ apostrophe @ '', got '' @ apostrophe
                            @ val @ apostrophe @ ''.''),
                opt)))"

definition CollectionOption_ParseValue ::
  "Root \<Rightarrow> IOption \<Rightarrow> string \<Rightarrow> bool \<times> Root \<times> IOption" where
  "CollectionOption_ParseValue r opt val =
     (case m_Members opt of
        CollectionOption vs acceptEmpty \<Rightarrow>
          if \<not> acceptEmpty \<and> val = []
          then (False,
                SetError r (''Empty values are not allowed for '' @ apostrophe @ GetPrefix r
                            @ m_Name opt @ apostrophe @ ''.''),
                opt)
          else (True, r, opt\<lparr> m_Members := CollectionOption (vs @ [val]) acceptEmpty \<rparr>))"

text \<open>The virtual \<^verbatim>\<open>ParseValue\<close>: \<^verbatim>\<open>FlagOption\<close> does not override it, so a
  flag has the implementation of \<^verbatim>\<open>IOption\<close>.\<close>

definition ParseValue :: "Root \<Rightarrow> IOption \<Rightarrow> string \<Rightarrow> bool \<times> Root \<times> IOption" where
  "ParseValue r opt val =
     (case m_Members opt of
        FlagOption v d \<Rightarrow>
          (False,
           SetError r (''Value parsing was not implemented for '' @ apostrophe @ m_Name opt
                       @ apostrophe @ ''.''),
           opt)
      | IntOption v hasDefault d \<Rightarrow> IntOption_ParseValue r opt val
      | StrOption v hasDefault d \<Rightarrow> StrOption_ParseValue r opt val
      | ChoiceOption i choices hasDefault d \<Rightarrow> ChoiceOption_ParseValue r opt val
      | CollectionOption vs acceptEmpty \<Rightarrow> CollectionOption_ParseValue r opt val)"

definition IOption_ParseArg :: "Root \<Rightarrow> IOption \<Rightarrow> string \<Rightarrow> bool \<Rightarrow> bool \<times> Root \<times> IOption" where
  "IOption_ParseArg r opt arg isShort =
     (case ConsumeName opt arg isShort of
        (False, arg1) \<Rightarrow> (False, r, opt)
      | (True, arg1) \<Rightarrow>
          if \<not> isShort \<and> HasMetaVar opt then
            (if \<not> starts_with arg1 ''='' then (False, r, opt)
             else ParseValue r opt (drop 1 arg1))
          else ParseValue r opt arg1)"

definition FlagOption_ParseArg :: "Root \<Rightarrow> IOption \<Rightarrow> string \<Rightarrow> bool \<Rightarrow> bool \<times> Root \<times> IOption" where
  "FlagOption_ParseArg r opt arg isShort =
     (case ConsumeName opt arg isShort of
        (True, arg1) \<Rightarrow>
          if arg1 \<noteq> [] then (False, r, opt) else (True, r, SetValue opt True)
      | (False, arg1) \<Rightarrow>
          if isShort then (False, r, opt)
          else if starts_with arg1 ''no-'' then
            (if drop 3 arg1 \<noteq> m_Name opt then (False, r, opt)
             else (True, r, SetValue opt False))
          else (False, r, opt))"

text \<open>The virtual \<^verbatim>\<open>ParseArg\<close>, overridden by \<^verbatim>\<open>FlagOption\<close> only.\<close>

definition ParseArg :: "Root \<Rightarrow> IOption \<Rightarrow> string \<Rightarrow> bool \<Rightarrow> bool \<times> Root \<times> IOption" where
  "ParseArg r opt arg isShort =
     (case m_Members opt of
        FlagOption v d \<Rightarrow> FlagOption_ParseArg r opt arg isShort
      | _ \<Rightarrow> IOption_ParseArg r opt arg isShort)"

definition IOption_Parse :: "Root \<Rightarrow> IOption \<Rightarrow> string \<Rightarrow> bool \<Rightarrow> bool \<times> Root \<times> IOption" where
  "IOption_Parse r opt arg isShort =
     (case ParseArg r opt arg isShort of
        (True, r1, opt1) \<Rightarrow> (True, r1, opt1\<lparr> m_WasParsed := True \<rparr>)
      | (False, r1, opt1) \<Rightarrow> (False, r1, opt1))"

subsection \<open>Positional arguments\<close>

datatype ArgumentMembers =
    StrArgument string bool string
  | StrVarArgument "string list"

record IPositionalArgument =
  m_WasParsed_arg :: bool
  m_MetaVar_arg :: string
  m_Description_arg :: string
  m_Members_arg :: ArgumentMembers

definition StrArgument_ctor :: "string \<Rightarrow> string \<Rightarrow> IPositionalArgument" where
  "StrArgument_ctor metaVar description =
     \<lparr> m_WasParsed_arg = False, m_MetaVar_arg = metaVar, m_Description_arg = description,
       m_Members_arg = StrArgument [] False [] \<rparr>"

definition StrArgument_ctor_default :: "string \<Rightarrow> string \<Rightarrow> string \<Rightarrow> IPositionalArgument" where
  "StrArgument_ctor_default metaVar description defaultValue =
     \<lparr> m_WasParsed_arg = False, m_MetaVar_arg = metaVar, m_Description_arg = description,
       m_Members_arg = StrArgument [] True defaultValue \<rparr>"

definition StrVarArgument_ctor :: "string \<Rightarrow> string \<Rightarrow> IPositionalArgument" where
  "StrVarArgument_ctor metaVar description =
     \<lparr> m_WasParsed_arg = False, m_MetaVar_arg = metaVar, m_Description_arg = description,
       m_Members_arg = StrVarArgument [] \<rparr>"

definition IsVariadic :: "IPositionalArgument \<Rightarrow> bool" where
  "IsVariadic a = (case m_Members_arg a of StrArgument v hasDefault d \<Rightarrow> False
                   | StrVarArgument vs \<Rightarrow> True)"

definition HasDefaultValue_arg :: "IPositionalArgument \<Rightarrow> bool" where
  "HasDefaultValue_arg a = (case m_Members_arg a of StrArgument v hasDefault d \<Rightarrow> hasDefault
                            | StrVarArgument vs \<Rightarrow> True)"

definition HasValue_arg :: "IPositionalArgument \<Rightarrow> bool" where
  "HasValue_arg a = (m_WasParsed_arg a \<or> HasDefaultValue_arg a)"

fun StrArgument_GetValue :: "IPositionalArgument \<Rightarrow> string" where
  "StrArgument_GetValue a =
     (case m_Members_arg a of
        StrArgument v hasDefault d \<Rightarrow> if m_WasParsed_arg a then v else d)"

fun StrVarArgument_GetValue :: "IPositionalArgument \<Rightarrow> string list" where
  "StrVarArgument_GetValue a = (case m_Members_arg a of StrVarArgument vs \<Rightarrow> vs)"

definition ParseArg_arg ::
  "Root \<Rightarrow> IPositionalArgument \<Rightarrow> string \<Rightarrow> bool \<times> Root \<times> IPositionalArgument" where
  "ParseArg_arg r a arg =
     (case m_Members_arg a of
        StrArgument v hasDefault d \<Rightarrow>
          (True, r, a\<lparr> m_Members_arg := StrArgument arg hasDefault d \<rparr>)
      | StrVarArgument vs \<Rightarrow>
          (True, r, a\<lparr> m_Members_arg := StrVarArgument (vs @ [arg]) \<rparr>))"

definition IPositionalArgument_Parse ::
  "Root \<Rightarrow> IPositionalArgument \<Rightarrow> string \<Rightarrow> bool \<times> Root \<times> IPositionalArgument" where
  "IPositionalArgument_Parse r a arg =
     (case ParseArg_arg r a arg of
        (True, r1, a1) \<Rightarrow> (True, r1, a1\<lparr> m_WasParsed_arg := True \<rparr>)
      | (False, r1, a1) \<Rightarrow> (False, r1, a1))"

subsection \<open>Parsers\<close>

text \<open>
  A parser node holds its options, subcommands and positional arguments in the order
  of their registration. The vectors of pointers of the source become lists of the
  objects themselves: an option or argument is registered with one parser, by its own
  constructor, and a \<^verbatim>\<open>CommandParser\<close> with its parent.
\<close>

datatype IArgParser = IArgParser
  (m_WasUsed: bool)
  (m_Name_cmd: string)
  (m_Description_cmd: string)
  (m_Options: "IOption list")
  (m_Commands: "IArgParser list")
  (m_Arguments: "IPositionalArgument list")

definition IArgParser_ctor :: "string \<Rightarrow> string \<Rightarrow> IArgParser" where
  "IArgParser_ctor command description = IArgParser False command description [] [] []"

definition set_WasUsed :: "IArgParser \<Rightarrow> bool \<Rightarrow> IArgParser" where
  "set_WasUsed p b =
     IArgParser b (m_Name_cmd p) (m_Description_cmd p) (m_Options p) (m_Commands p) (m_Arguments p)"

definition set_Options :: "IArgParser \<Rightarrow> IOption list \<Rightarrow> IArgParser" where
  "set_Options p opts =
     IArgParser (m_WasUsed p) (m_Name_cmd p) (m_Description_cmd p) opts (m_Commands p) (m_Arguments p)"

definition set_Commands :: "IArgParser \<Rightarrow> IArgParser list \<Rightarrow> IArgParser" where
  "set_Commands p cmds =
     IArgParser (m_WasUsed p) (m_Name_cmd p) (m_Description_cmd p) (m_Options p) cmds (m_Arguments p)"

definition set_Arguments :: "IArgParser \<Rightarrow> IPositionalArgument list \<Rightarrow> IArgParser" where
  "set_Arguments p args =
     IArgParser (m_WasUsed p) (m_Name_cmd p) (m_Description_cmd p) (m_Options p) (m_Commands p) args"

definition AddOption :: "IArgParser \<Rightarrow> IOption \<Rightarrow> IArgParser" where
  "AddOption p opt = set_Options p (m_Options p @ [opt])"

definition AddCommand :: "IArgParser \<Rightarrow> IArgParser \<Rightarrow> IArgParser" where
  "AddCommand p cmd = set_Commands p (m_Commands p @ [cmd])"

definition AddArgument :: "IArgParser \<Rightarrow> IPositionalArgument \<Rightarrow> IArgParser" where
  "AddArgument p arg = set_Arguments p (m_Arguments p @ [arg])"

text \<open>The root: \<^verbatim>\<open>ArgParser(program, description)\<close> delegates to the constructor
  with the prefixes \<^verbatim>\<open>"--"\<close> and \<^verbatim>\<open>"-"\<close>.\<close>

definition ArgParser_ctor :: "string \<Rightarrow> string \<Rightarrow> string \<Rightarrow> string \<Rightarrow> Root \<times> IArgParser" where
  "ArgParser_ctor program description prefix shortPrefix =
     (\<lparr> m_Prefix = prefix, m_ShortPrefix = shortPrefix, m_ErrorMessage = [] \<rparr>,
      IArgParser_ctor program description)"

definition ArgParser_ctor_default :: "string \<Rightarrow> string \<Rightarrow> Root \<times> IArgParser" where
  "ArgParser_ctor_default program description = ArgParser_ctor program description ''--'' ''-''"

text \<open>\<^verbatim>\<open>operator bool\<close> of a parser.\<close>

definition operator_bool :: "Root \<Rightarrow> IArgParser \<Rightarrow> bool" where
  "operator_bool r p = (\<not> HasError r \<and> m_WasUsed p)"

subsection \<open>The token loop\<close>

text \<open>
  The scan of \<^verbatim>\<open>m_Options\<close> for one token: \<open>HasParsedOption\<close> when an option
  returned true (the \<^verbatim>\<open>break\<close>), \<open>ScanReturnFalse\<close> when the loop left
  \<^verbatim>\<open>Parse\<close> through \<^verbatim>\<open>return false\<close>, \<open>NoOption\<close> when the loop ran to its end.
\<close>

datatype scan_result = HasParsedOption | ScanReturnFalse | NoOption

fun scan_options ::
  "Root \<Rightarrow> IOption list \<Rightarrow> string \<Rightarrow> bool \<Rightarrow> bool \<Rightarrow> scan_result \<times> Root \<times> IOption list" where
  "scan_options r [] arg isShortPrefix arePrefixesTheSame = (NoOption, r, [])"
| "scan_options r (opt # opts) arg isShortPrefix arePrefixesTheSame =
     (case IOption_Parse r opt arg isShortPrefix of
        (True, r1, opt1) \<Rightarrow> (HasParsedOption, r1, opt1 # opts)
      | (False, r1, opt1) \<Rightarrow>
          if HasError r1 then (ScanReturnFalse, r1, opt1 # opts)
          else if arePrefixesTheSame then
            (case IOption_Parse r1 opt1 arg (\<not> isShortPrefix) of
               (True, r2, opt2) \<Rightarrow> (HasParsedOption, r2, opt2 # opts)
             | (False, r2, opt2) \<Rightarrow>
                 if HasError r2 then (ScanReturnFalse, r2, opt2 # opts)
                 else (case scan_options r2 opts arg isShortPrefix arePrefixesTheSame of
                         (res, r3, opts3) \<Rightarrow> (res, r3, opt2 # opts3)))
          else (case scan_options r1 opts arg isShortPrefix arePrefixesTheSame of
                  (res, r3, opts3) \<Rightarrow> (res, r3, opt1 # opts3)))"

text \<open>
  The part of the loop body after the prefix has been removed: the scan and the
  \<open>Unknown option\<close> error. \<open>Inl\<close> is a \<^verbatim>\<open>return\<close> from \<^verbatim>\<open>Parse\<close>,
  \<open>Inr\<close> the next iteration. \<^verbatim>\<open>arePrefixesTheSame\<close> is computed by the source once,
  before the loop; the prefixes are never assigned to, so it is computed here where
  it is used.
\<close>

definition match_option ::
  "Root \<Rightarrow> IArgParser \<Rightarrow> string \<Rightarrow> string \<Rightarrow> bool
   \<Rightarrow> (bool \<times> Root \<times> IArgParser) + (Root \<times> IArgParser)" where
  "match_option r p fullArg arg isShortPrefix =
     (case scan_options r (m_Options p) arg isShortPrefix (GetShortPrefix r = GetPrefix r) of
        (HasParsedOption, r1, opts1) \<Rightarrow> Inr (r1, set_Options p opts1)
      | (ScanReturnFalse, r1, opts1) \<Rightarrow> Inl (False, r1, set_Options p opts1)
      | (NoOption, r1, opts1) \<Rightarrow>
          Inl (False,
               SetError r1 (''Unknown option '' @ apostrophe @ fullArg @ apostrophe @ ''.''),
               set_Options p opts1))"

text \<open>
  The routing of a token to the positional argument at \<^verbatim>\<open>positionalIdx\<close>, which the
  source writes out twice. \<open>Inl\<close> is a \<^verbatim>\<open>return\<close> from \<^verbatim>\<open>Parse\<close>, \<open>Inr\<close>
  the \<^verbatim>\<open>continue\<close> with the index for the next token.
\<close>

definition route_positional ::
  "Root \<Rightarrow> IArgParser \<Rightarrow> nat \<Rightarrow> string
   \<Rightarrow> (bool \<times> Root \<times> IArgParser) + (Root \<times> IArgParser \<times> nat)" where
  "route_positional r p positionalIdx fullArg =
     (if positionalIdx \<ge> length (m_Arguments p)
      then Inl (False,
                SetError r (''Unexpected positional argument '' @ apostrophe @ fullArg
                            @ apostrophe @ ''.''),
                p)
      else
        (case IPositionalArgument_Parse r (m_Arguments p ! positionalIdx) fullArg of
           (False, r1, positional1) \<Rightarrow>
             Inl (False, r1, set_Arguments p ((m_Arguments p)[positionalIdx := positional1]))
         | (True, r1, positional1) \<Rightarrow>
             Inr (r1, set_Arguments p ((m_Arguments p)[positionalIdx := positional1]),
                  if \<not> IsVariadic positional1 then positionalIdx + 1 else positionalIdx)))"

text \<open>The two loops after the token loop.\<close>

definition check_values :: "Root \<Rightarrow> IArgParser \<Rightarrow> bool \<times> Root \<times> IArgParser" where
  "check_values r p =
     (case find (\<lambda>opt. \<not> HasValue opt) (m_Options p) of
        Some opt \<Rightarrow>
          (False,
           SetError r (''Missing option '' @ apostrophe @ GetPrefix r @ m_Name opt
                       @ apostrophe @ ''.''),
           p)
      | None \<Rightarrow>
          (case find (\<lambda>arg. \<not> HasValue_arg arg) (m_Arguments p) of
             Some arg \<Rightarrow>
               (False,
                SetError r (''Missing argument '' @ apostrophe @ m_MetaVar_arg arg
                            @ apostrophe @ ''.''),
                p)
           | None \<Rightarrow> (\<not> HasError r, r, p)))"

text \<open>
  \<^verbatim>\<open>IArgParser::Parse(std::stack<std::string_view> args)\<close>. The stack is the list of
  its elements, top first. \<open>ParseFrom r p front rest\<close> is \<^verbatim>\<open>Parse\<close> on the stack whose
  top is \<open>front\<close>, above \<open>rest\<close>; \<open>ParseArgs\<close> is the \<^verbatim>\<open>for\<close> loop over the
  remaining stack together with the two loops that follow it; \<open>ParseCommands\<close> is the
  loop over \<^verbatim>\<open>m_Commands\<close>, which hands each subcommand a copy of the stack whose top
  is the current token.
\<close>

datatype commands_result = CommandReturnTrue | CommandReturnFalse | NoCommand

function ParseFrom :: "Root \<Rightarrow> IArgParser \<Rightarrow> string \<Rightarrow> string list \<Rightarrow> bool \<times> Root \<times> IArgParser"
  and ParseArgs ::
    "Root \<Rightarrow> IArgParser \<Rightarrow> bool \<Rightarrow> nat \<Rightarrow> string list \<Rightarrow> bool \<times> Root \<times> IArgParser"
  and ParseCommands ::
    "Root \<Rightarrow> IArgParser list \<Rightarrow> string \<Rightarrow> string list
     \<Rightarrow> commands_result \<times> Root \<times> IArgParser list"
where
  "ParseFrom r p front rest =
     (if front \<noteq> m_Name_cmd p then (False, r, p)
      else ParseArgs r (set_WasUsed p True) False 0 rest)"
| "ParseArgs r p isParsingPositionals positionalIdx [] = check_values r p"
| "ParseArgs r p isParsingPositionals positionalIdx (fullArg # rest) =
     (if isParsingPositionals then
        (case route_positional r p positionalIdx fullArg of
           Inl res \<Rightarrow> res
         | Inr (r1, p1, positionalIdx1) \<Rightarrow> ParseArgs r1 p1 True positionalIdx1 rest)
      else if fullArg = ''--'' then ParseArgs r p True positionalIdx rest
      else if starts_with fullArg (GetPrefix r) then
        (case match_option r p fullArg (drop (length (GetPrefix r)) fullArg) False of
           Inl res \<Rightarrow> res
         | Inr (r1, p1) \<Rightarrow> ParseArgs r1 p1 False positionalIdx rest)
      else if HasShortPrefix r \<and> starts_with fullArg (GetShortPrefix r) then
        (case match_option r p fullArg (drop (length (GetShortPrefix r)) fullArg) True of
           Inl res \<Rightarrow> res
         | Inr (r1, p1) \<Rightarrow> ParseArgs r1 p1 False positionalIdx rest)
      else
        (case ParseCommands r (m_Commands p) fullArg rest of
           (CommandReturnTrue, r1, cmds1) \<Rightarrow> (True, r1, set_Commands p cmds1)
         | (CommandReturnFalse, r1, cmds1) \<Rightarrow> (False, r1, set_Commands p cmds1)
         | (NoCommand, r1, cmds1) \<Rightarrow>
             (case route_positional r1 (set_Commands p cmds1) positionalIdx fullArg of
                Inl res \<Rightarrow> res
              | Inr (r2, p2, positionalIdx2) \<Rightarrow> ParseArgs r2 p2 True positionalIdx2 rest)))"
| "ParseCommands r [] front rest = (NoCommand, r, [])"
| "ParseCommands r (cmd # cmds) front rest =
     (case ParseFrom r cmd front rest of
        (True, r1, cmd1) \<Rightarrow> (CommandReturnTrue, r1, cmd1 # cmds)
      | (False, r1, cmd1) \<Rightarrow>
          if HasError r1 then (CommandReturnFalse, r1, cmd1 # cmds)
          else (case ParseCommands r1 cmds front rest of
                  (res, r2, cmds2) \<Rightarrow> (res, r2, cmd1 # cmds2)))"
  by pat_completeness auto
termination
  by (relation "measures
        [(\<lambda>x. case x of
                 Inl (r, p, front, rest) \<Rightarrow> length rest + 1
               | Inr (Inl (r, p, b, i, args)) \<Rightarrow> length args
               | Inr (Inr (r, cmds, front, rest)) \<Rightarrow> length rest + 1),
         (\<lambda>x. case x of
                 Inl (r, p, front, rest) \<Rightarrow> 0
               | Inr (Inl (r, p, b, i, args)) \<Rightarrow> 2
               | Inr (Inr (r, cmds, front, rest)) \<Rightarrow> 1),
         (\<lambda>x. case x of
                 Inl (r, p, front, rest) \<Rightarrow> 0
               | Inr (Inl (r, p, b, i, args)) \<Rightarrow> 0
               | Inr (Inr (r, cmds, front, rest)) \<Rightarrow> length cmds)]")
     auto

text \<open>
  \<^verbatim>\<open>Parse\<close> reads \<^verbatim>\<open>args.top()\<close> first; on an empty stack that is undefined, and
  the result is \<open>None\<close>.
\<close>

definition Parse :: "Root \<Rightarrow> IArgParser \<Rightarrow> string list \<Rightarrow> (bool \<times> Root \<times> IArgParser) option" where
  "Parse r p args = (case args of [] \<Rightarrow> None | front # rest \<Rightarrow> Some (ParseFrom r p front rest))"

text \<open>
  \<^verbatim>\<open>Parse(int argc, const char** argv)\<close> pushes \<^verbatim>\<open>argv[argc-1]\<close> down to
  \<^verbatim>\<open>argv[0]\<close>, so that \<^verbatim>\<open>argv[0]\<close> is on top.
\<close>

definition Parse_argv :: "Root \<Rightarrow> IArgParser \<Rightarrow> string list \<Rightarrow> (bool \<times> Root \<times> IArgParser) option" where
  "Parse_argv r p argv = Parse r p (foldl (\<lambda>args a. a # args) [] (rev argv))"

text \<open>
  The constructor of \<^verbatim>\<open>CommandParser\<close> registers the new, still empty, node with
  its parent and returns nothing; the model returns the parent. Options and arguments
  constructed later with the subcommand as their parser reach it through the parent:
  \<open>in_command i f p\<close> applies such a registration \<open>f\<close> to the \<open>i\<close>-th subcommand
  of \<open>p\<close>.
\<close>

definition CommandParser_ctor :: "IArgParser \<Rightarrow> string \<Rightarrow> string \<Rightarrow> IArgParser" where
  "CommandParser_ctor parent command description =
     AddCommand parent (IArgParser_ctor command description)"

definition in_command :: "nat \<Rightarrow> (IArgParser \<Rightarrow> IArgParser) \<Rightarrow> IArgParser \<Rightarrow> IArgParser" where
  "in_command i f p = set_Commands p ((m_Commands p)[i := f (m_Commands p ! i)])"

subsection \<open>Parsers of the scenarios\<close>

text \<open>
  The parser of the example program \<^verbatim>\<open>01-math\<close>: two integer options without default
  and a choice with default index 0. The program name and the two meta-variables of
  the integer options are parameters.
\<close>

definition math_parser :: "string \<Rightarrow> string \<Rightarrow> string \<Rightarrow> Root \<times> IArgParser" where
  "math_parser program metaVarA metaVarB =
     (case ArgParser_ctor_default program (''Math ain'' @ apostrophe @ ''t mathing.'') of
        (r, parser) \<Rightarrow>
          (r,
           AddOption
             (AddOption
                (AddOption parser
                   (IntOption_ctor ''a'' ''a'' metaVarA ''The first operand.''))
                (IntOption_ctor ''b'' ''b'' metaVarB ''The second operand.''))
             (ChoiceOption_ctor_default ''op'' ''op'' ''OPERATOR''
                ''The operator to use. (default: +)'' [''+'', ''-'', ''*'', ''/''] 0)))"

text \<open>A root \<^verbatim>\<open>prog\<close> with the subcommand \<^verbatim>\<open>sub\<close>, which declares the string
  argument \<^verbatim>\<open>X\<close> without default.\<close>

definition sub_parser :: "Root \<times> IArgParser" where
  "sub_parser =
     (case ArgParser_ctor_default ''prog'' [] of
        (r, parser) \<Rightarrow>
          (r,
           in_command 0 (\<lambda>sub. AddArgument sub (StrArgument_ctor ''X'' []))
             (CommandParser_ctor parser ''sub'' [])))"

text \<open>The parser of the example program \<^verbatim>\<open>00-hello\<close>: one string argument
  \<^verbatim>\<open>USER\<close>, no option, no subcommand.\<close>

definition hello_parser :: "string \<Rightarrow> Root \<times> IArgParser" where
  "hello_parser program =
     (case ArgParser_ctor_default program ''My first Argue.'' of
        (r, parser) \<Rightarrow> (r, AddArgument parser (StrArgument_ctor ''USER'' ''Greets USER.'')))"

text \<open>A root \<^verbatim>\<open>prog\<close> with one option only.\<close>

definition single_option_parser :: "string \<Rightarrow> string \<Rightarrow> IOption \<Rightarrow> Root \<times> IArgParser" where
  "single_option_parser prefix shortPrefix opt =
     (case ArgParser_ctor ''prog'' [] prefix shortPrefix of
        (r, parser) \<Rightarrow> (r, AddOption parser opt))"

subsection \<open>Notions of the specification\<close>




text \<open>An option declines a fragment in a form when its \<^verbatim>\<open>Parse\<close> returns false and
  the error slot is empty afterwards: "not this option".\<close>

definition declines :: "Root \<Rightarrow> IOption \<Rightarrow> string \<Rightarrow> bool \<Rightarrow> bool" where
  "declines r opt arg isShort =
     (case IOption_Parse r opt arg isShort of (ok, r1, opt1) \<Rightarrow> \<not> ok \<and> \<not> HasError r1)"

text \<open>
  A token has an option prefix when the loop sends it to the scan of the options: it
  starts with the long prefix, or a short prefix exists and it starts with that. The
  loop then removes the prefix it found and tries the form that belongs to it, and the
  other form as well when the two prefixes are equal. The token is unclaimed when every
  option declines it in each form tried.
\<close>

definition has_option_prefix :: "Root \<Rightarrow> string \<Rightarrow> bool" where
  "has_option_prefix r fullArg =
     (starts_with fullArg (GetPrefix r) \<or>
      (HasShortPrefix r \<and> starts_with fullArg (GetShortPrefix r)))"

text \<open>
  The branch of the loop a token takes before positional-only mode, when it is not
  \<^verbatim>\<open>--\<close>: \<open>Some False\<close> is the branch of the long prefix, which is tested first,
  \<open>Some True\<close> the branch of the short prefix, both with the value they give to
  \<^verbatim>\<open>isShortPrefix\<close>; \<open>None\<close> is the last branch, to the subcommands and the
  positional arguments.
\<close>

definition selected_form :: "Root \<Rightarrow> string \<Rightarrow> bool option" where
  "selected_form r fullArg =
     (if starts_with fullArg (GetPrefix r) then Some False
      else if HasShortPrefix r \<and> starts_with fullArg (GetShortPrefix r) then Some True
      else None)"

definition without_prefix :: "Root \<Rightarrow> string \<Rightarrow> string" where
  "without_prefix r fullArg =
     (if starts_with fullArg (GetPrefix r) then drop (length (GetPrefix r)) fullArg
      else drop (length (GetShortPrefix r)) fullArg)"

definition unclaimed :: "Root \<Rightarrow> IOption list \<Rightarrow> string \<Rightarrow> bool" where
  "unclaimed r opts fullArg =
     list_all
       (\<lambda>opt. declines r opt (without_prefix r fullArg) (\<not> starts_with fullArg (GetPrefix r)) \<and>
              (GetShortPrefix r = GetPrefix r \<longrightarrow>
                 declines r opt (without_prefix r fullArg) (starts_with fullArg (GetPrefix r))))
       opts"

text \<open>
  The order of attempts the specification describes for identical prefixes, as a list
  of pairs of an option's position and a form (\<open>True\<close>: short): for each option in
  declaration order, first the form selected by the matched prefix, then the opposite
  one. \<open>run_attempts\<close> makes the attempts in the order of the list: the first attempt
  that returns true wins, and an attempt that leaves an error ends the scan.
\<close>

definition attempt_order :: "IOption list \<Rightarrow> bool \<Rightarrow> (nat \<times> bool) list" where
  "attempt_order opts isShortPrefix =
     concat (map (\<lambda>i. [(i, isShortPrefix), (i, \<not> isShortPrefix)]) [0..<length opts])"

fun run_attempts ::
  "Root \<Rightarrow> IOption list \<Rightarrow> string \<Rightarrow> (nat \<times> bool) list \<Rightarrow> scan_result \<times> Root \<times> IOption list" where
  "run_attempts r opts arg [] = (NoOption, r, opts)"
| "run_attempts r opts arg ((i, isShort) # attempts) =
     (case IOption_Parse r (opts ! i) arg isShort of
        (True, r1, opt1) \<Rightarrow> (HasParsedOption, r1, opts[i := opt1])
      | (False, r1, opt1) \<Rightarrow>
          if HasError r1 then (ScanReturnFalse, r1, opts[i := opt1])
          else run_attempts r1 (opts[i := opt1]) arg attempts)"

section \<open>Properties\<close>

subsection \<open>Unfolding and evaluation\<close>

lemmas text_defs =
  SPACE_CHARS_def IsSpace_def find_char_def size_t_sub_def size_t_add_def size_t_mul_def
  TextBuilder_ctor_def TextBuilder_default_def NewLine_def Spacer_def Indent_def
  DeIndent_def Build_def PutLineIndent_def

lemmas root_defs =
  GetError_def SetError_def HasError_def GetPrefix_def GetShortPrefix_def
  HasShortPrefix_def apostrophe_def

lemmas option_defs =
  IOption_ctor_def FlagOption_ctor_def IntOption_ctor_def IntOption_ctor_default_def
  StrOption_ctor_def StrOption_ctor_default_def ChoiceOption_ctor_def
  ChoiceOption_ctor_default_def CollectionOption_ctor_def HasMetaVar_def HasShortName_def
  WasParsed_def HasDefaultValue_def IsVarOptional_def HasValue_def SetValue_def
  ConsumeName_def IntOption_ParseValue_def StrOption_ParseValue_def GetChoiceString_def
  ChoiceOption_ParseValue_def CollectionOption_ParseValue_def ParseValue_def
  IOption_ParseArg_def FlagOption_ParseArg_def ParseArg_def IOption_Parse_def
  from_chars_def is_digit_def decimal_value_def

lemmas argument_defs =
  StrArgument_ctor_def StrArgument_ctor_default_def StrVarArgument_ctor_def IsVariadic_def
  HasDefaultValue_arg_def HasValue_arg_def ParseArg_arg_def IPositionalArgument_Parse_def

lemmas parser_defs =
  IArgParser_ctor_def set_WasUsed_def set_Options_def set_Commands_def set_Arguments_def
  AddOption_def AddCommand_def AddArgument_def ArgParser_ctor_def ArgParser_ctor_default_def
  CommandParser_ctor_def in_command_def operator_bool_def match_option_def
  route_positional_def check_values_def Parse_def Parse_argv_def

lemma pop_back_spaces_rev: "pop_back_spaces s = rev (dropWhile IsSpace (rev s))"
proof (induction s rule: pop_back_spaces.induct)
  case (1 s)
  show ?case
  proof (cases "s \<noteq> [] \<and> IsSpace (last s)")
    case True
    then obtain xs x where s: "s = xs @ [x]" and x: "IsSpace x"
      by (metis append_butlast_last_id)
    from True 1 have "pop_back_spaces (butlast s) = rev (dropWhile IsSpace (rev (butlast s)))"
      by simp
    with s x show ?thesis
      by (subst pop_back_spaces.simps) simp
  next
    case False
    then show ?thesis
      by (subst pop_back_spaces.simps) (cases s rule: rev_cases; auto)
  qed
qed

lemma PutLine_no_space:
  "find_first_of text SPACE_CHARS = None \<Longrightarrow>
   PutLine tb text =
     (let hasWrapped = (m_CurrentLine tb \<noteq> [] \<and>
                        size_t_sub (length (m_CurrentLine tb)) (m_CurrentLineIndentLength tb)
                          \<ge> m_MaxParagraphWidth tb \<and>
                        (IsSpace (last (m_CurrentLine tb)) \<or> (text \<noteq> [] \<and> IsSpace (hd text))));
          tb2 = PutLineIndent (if hasWrapped then NewLine tb else tb) hasWrapped
      in tb2\<lparr> m_CurrentLine := m_CurrentLine tb2 @ text \<rparr>)"
  by (subst PutLine.simps) (simp add: Let_def)

lemma PutText_no_newline:
  "find_char text (CHR ''\<newline>'') = None \<Longrightarrow> PutText tb text = PutLine tb text"
  by (subst PutText.simps) simp

lemma PutLine_space:
  "find_first_of text SPACE_CHARS \<noteq> None \<Longrightarrow>
   PutLine tb text =
     (let nextWordIdx = the (find_first_of text SPACE_CHARS);
          hasWrapped = (m_CurrentLine tb \<noteq> [] \<and>
                        size_t_sub (length (m_CurrentLine tb)) (m_CurrentLineIndentLength tb)
                          \<ge> m_MaxParagraphWidth tb \<and>
                        (IsSpace (last (m_CurrentLine tb)) \<or> (text \<noteq> [] \<and> IsSpace (hd text))));
          tb2 = PutLineIndent (if hasWrapped then NewLine tb else tb) hasWrapped
      in PutLine
           (if nextWordIdx > 0
            then tb2\<lparr> m_CurrentLine := m_CurrentLine tb2 @ take nextWordIdx text @ [CHR '' ''] \<rparr>
            else if \<not> hasWrapped
            then tb2\<lparr> m_CurrentLine := m_CurrentLine tb2 @ [CHR '' ''] \<rparr>
            else tb2)
           (drop (nextWordIdx + 1) text))"
  by (subst PutLine.simps) (auto simp add: Let_def)

lemma PutText_newline:
  "find_char text (CHR ''\<newline>'') \<noteq> None \<Longrightarrow>
   PutText tb text =
     PutText (NewLine (PutLine tb (take (the (find_char text (CHR ''\<newline>''))) text)))
       (drop (the (find_char text (CHR ''\<newline>'')) + 1) text)"
  by (subst PutText.simps) auto

lemmas text_eval =
  PutText_no_newline PutText_newline PutLine_no_space PutLine_space pop_back_spaces_rev
  text_defs Let_def



subsection \<open>TextBuilder\<close>

lemma Build_keeps_builder: "snd (Build tb) = tb"
  by (simp add: Build_def Let_def)

text \<open>Whatever the builder holds, the built text is a body that is empty or ends in a
  character that is not a space, followed by one line break.\<close>

lemma Build_trimmed:
  "\<exists>body. fst (Build tb) = body @ [CHR ''\<newline>''] \<and> (body = [] \<or> \<not> IsSpace (last body))"
proof -
  have "xs = [] \<or> \<not> IsSpace (last xs)" if "xs = rev (dropWhile IsSpace (rev s))" for xs s
  proof (cases "dropWhile IsSpace (rev s)")
    case Nil
    with that show ?thesis by simp
  next
    case (Cons y ys)
    then have "\<not> IsSpace y"
      by (metis hd_dropWhile list.distinct(1) list.sel(1))
    with Cons that show ?thesis by simp
  qed
  then show ?thesis
    by (simp add: Build_def Let_def pop_back_spaces_rev)
qed

text \<open>The builder at work: nothing put in, a paragraph wrapped at width 5 with the
  continuation lines indented, and a spacer between two paragraphs.\<close>

lemma Build_examples:
  "fst (Build TextBuilder_default) = ''\<newline>''"
  "fst (Build (PutText (TextBuilder_ctor ''  '' True 5) ''hello world this is good'')) =
     ''hello\<newline>  world\<newline>  this\<newline>  is good\<newline>''"
  "fst (Build (PutText (Spacer (PutText TextBuilder_default ''usage'')) ''a b\<newline>c'')) =
     ''usage\<newline>\<newline>a b\<newline>c\<newline>''"
  "fst (Build (Spacer (Spacer (PutText TextBuilder_default ''a'')))) = ''a\<newline>''"
  by (simp_all add: text_eval)

text \<open>Other texts that start with white space: a leading space of the text put in is
  kept, and a spacer on the empty builder leaves a line break in front.\<close>

lemma Build_leading_space_examples:
  "fst (Build (PutText TextBuilder_default '' a'')) = '' a\<newline>''"
  "fst (Build (PutText (Spacer TextBuilder_default) ''a'')) = ''\<newline>\<newline>a\<newline>''"
  by (simp_all add: text_eval)

text \<open>
  C3 (what the code does where the claim fails). The claim: \<^verbatim>\<open>Build()\<close> returns the
  accumulated text and the pending line, trimmed and followed by one line break, and
  resets the builder, so that a second \<^verbatim>\<open>Build()\<close> returns the single line break.
  On the default builder after \<^verbatim>\<open>PutText("a")\<close> the first \<^verbatim>\<open>Build()\<close> returns
  \<^verbatim>\<open>"a\n"\<close>, and so does the second: the builder is not reset.
\<close>

theorem Build_twice_same_text:
  "fst (Build (PutText TextBuilder_default ''a'')) = ''a\<newline>'' \<and>
   fst (Build (snd (Build (PutText TextBuilder_default ''a'')))) = ''a\<newline>'' \<and>
   fst (Build (snd (Build (PutText TextBuilder_default ''a'')))) \<noteq> ''\<newline>''"
  by (simp add: PutText_no_newline PutLine_no_space pop_back_spaces_rev text_defs)

text \<open>
  C4 (what the code does where the claim fails). The claim: after any sequence of
  \<^verbatim>\<open>PutText\<close>, \<^verbatim>\<open>NewLine\<close>, \<^verbatim>\<open>Spacer\<close>, \<^verbatim>\<open>Indent\<close>, \<^verbatim>\<open>DeIndent\<close> the built
  string ends with no white space but the one line break and starts with no white
  space. On the default builder after \<^verbatim>\<open>Indent()\<close> and \<^verbatim>\<open>PutText("a")\<close> the built
  string is \<^verbatim>\<open>"  a\n"\<close>: it starts with the indentation.
\<close>

theorem Build_starts_with_indent:
  "fst (Build (PutText (Indent TextBuilder_default) ''a'')) = ''  a\<newline>'' \<and>
   IsSpace (hd (fst (Build (PutText (Indent TextBuilder_default) ''a''))))"
  by (simp add: PutText_no_newline PutLine_no_space pop_back_spaces_rev text_defs)

subsection \<open>Options\<close>

lemma starts_with_append: "starts_with (p @ s) p"
  by (induction p) simp_all

lemma set_Options_same: "set_Options p (m_Options p) = p"
  by (cases p) (simp add: set_Options_def)

text \<open>On an optional minus sign and a non-empty run of digits whose value does not fit
  64 bits, the conversion stops at the end, reports the range error and writes nothing.\<close>

lemma from_chars_out_of_range:
  assumes "digits \<noteq> []" and "list_all is_digit digits"
      and "(if negative then - int (decimal_value digits) else int (decimal_value digits))
             \<notin> {- (2 ^ 63) ..< 2 ^ 63}"
  shows "from_chars ((if negative then ''-'' else []) @ digits) =
           (length ((if negative then ''-'' else []) @ digits), result_out_of_range, None)"
proof -
  have tw: "takeWhile is_digit digits = digits"
    using assms(2) by (simp add: takeWhile_eq_all_conv list_all_iff)
  have hd: "hd digits \<noteq> CHR ''-''"
    using assms(1,2) by (cases digits) (auto simp: is_digit_def)
  show ?thesis
  proof (cases negative)
    case True
    with assms(1,3) show ?thesis
      by (simp add: from_chars_def Let_def tw)
  next
    case False
    with assms(1,3) hd show ?thesis
      by (simp add: from_chars_def Let_def tw)
  qed
qed

text \<open>
  C7. For a choice option named \<^verbatim>\<open>op\<close> with the candidates \<^verbatim>\<open>+\<close>, \<^verbatim>\<open>-\<close>,
  \<^verbatim>\<open>*\<close>, \<^verbatim>\<open>/\<close> under the prefix \<^verbatim>\<open>--\<close>, a value \<open>val\<close> that is none of the
  candidates makes \<^verbatim>\<open>ParseValue\<close> fail and sets the error message to exactly
  \<^verbatim>\<open>Expected one of {+,-,*,/} for '--op', got 'val'.\<close>; so does the option's
  \<^verbatim>\<open>Parse\<close> on the fragment \<^verbatim>\<open>op=val\<close>, and the parser's loop returns false with
  that message on the token \<^verbatim>\<open>--op=val\<close>.
\<close>

theorem choice_error_message:
  assumes "val \<notin> set [''+'', ''-'', ''*'', ''/'']"
      and "m_Prefix r = ''--''"
      and "m_Name opt = ''op''"
      and "m_Members opt = ChoiceOption i [''+'', ''-'', ''*'', ''/''] hasDefault d"
      and "HasMetaVar opt"
      and "m_Options p = opt # opts"
  shows
    "ChoiceOption_ParseValue r opt val =
       (False,
        SetError r (''Expected one of {+,-,*,/} for '' @ apostrophe @ ''--op'' @ apostrophe
                    @ '', got '' @ apostrophe @ val @ apostrophe @ ''.''),
        opt) \<and>
     IOption_Parse r opt (''op='' @ val) False =
       (False,
        SetError r (''Expected one of {+,-,*,/} for '' @ apostrophe @ ''--op'' @ apostrophe
                    @ '', got '' @ apostrophe @ val @ apostrophe @ ''.''),
        opt) \<and>
     ParseArgs r p False positionalIdx ((''--op='' @ val) # rest) =
       (False,
        SetError r (''Expected one of {+,-,*,/} for '' @ apostrophe @ ''--op'' @ apostrophe
                    @ '', got '' @ apostrophe @ val @ apostrophe @ ''.''),
        p)"
proof -
  let ?msg = "''Expected one of {+,-,*,/} for '' @ apostrophe @ ''--op'' @ apostrophe
              @ '', got '' @ apostrophe @ val @ apostrophe @ ''.''"
  from assms(1) have no: "find_choice [''+'', ''-'', ''*'', ''/''] val 0 = None"
    by auto
  have pv: "ChoiceOption_ParseValue r opt val = (False, SetError r ?msg, opt)"
    using no assms(2-4)
    by (simp add: ChoiceOption_ParseValue_def GetChoiceString_def GetPrefix_def)
  have parse: "IOption_Parse r opt (''op='' @ val) False = (False, SetError r ?msg, opt)"
    using pv assms(3-5)
    by (simp add: IOption_Parse_def ParseArg_def IOption_ParseArg_def ConsumeName_def
        ParseValue_def)
  have err: "HasError (SetError r ?msg)"
    by (simp add: HasError_def SetError_def)
  have "ParseArgs r p False positionalIdx ((''--op='' @ val) # rest) = (False, SetError r ?msg, p)"
    using parse err assms(2,6)
    by (simp add: match_option_def GetPrefix_def set_Options_same [of p, unfolded assms(6)])
  with pv parse show ?thesis by simp
qed

theorem choice_error_message_witness:
  "ParseArgs (fst (single_option_parser ''--'' ''-''
                 (ChoiceOption_ctor_default ''op'' ''op'' ''OPERATOR'' [] [''+'', ''-'', ''*'', ''/''] 0)))
     (snd (single_option_parser ''--'' ''-''
             (ChoiceOption_ctor_default ''op'' ''op'' ''OPERATOR'' [] [''+'', ''-'', ''*'', ''/''] 0)))
     False 0 [''--op=%''] =
   (False,
    \<lparr> m_Prefix = ''--'', m_ShortPrefix = ''-'',
      m_ErrorMessage = ''Expected one of {+,-,*,/} for '' @ apostrophe @ ''--op'' @ apostrophe
                       @ '', got '' @ apostrophe @ ''%'' @ apostrophe @ ''.'' \<rparr>,
    snd (single_option_parser ''--'' ''-''
           (ChoiceOption_ctor_default ''op'' ''op'' ''OPERATOR'' [] [''+'', ''-'', ''*'', ''/''] 0)))"
  using choice_error_message
     [of "''%''"
         "fst (single_option_parser ''--'' ''-''
                 (ChoiceOption_ctor_default ''op'' ''op'' ''OPERATOR'' [] [''+'', ''-'', ''*'', ''/''] 0))"
         "ChoiceOption_ctor_default ''op'' ''op'' ''OPERATOR'' [] [''+'', ''-'', ''*'', ''/''] 0"
         0 True 0
         "snd (single_option_parser ''--'' ''-''
                 (ChoiceOption_ctor_default ''op'' ''op'' ''OPERATOR'' [] [''+'', ''-'', ''*'', ''/''] 0))"
         "[]" 0 "[]"]
  by (simp add: single_option_parser_def ArgParser_ctor_def IArgParser_ctor_def AddOption_def
      set_Options_def ChoiceOption_ctor_default_def IOption_ctor_def HasMetaVar_def SetError_def)

text \<open>
  C9. Let the fragment \<^verbatim>\<open>name=D\<close> be given in the long form to an integer option that
  has a meta-variable, where \<^verbatim>\<open>D\<close> is an optional minus sign followed by a non-empty
  run of decimal digits whose value lies outside the signed 64-bit range. Then the
  option's \<^verbatim>\<open>Parse\<close> returns true, leaves the error slot as it was and marks the
  option as parsed; the stored value is the never-written local variable.
\<close>

theorem int_overflow_accepted:
  assumes "digits \<noteq> []" and "list_all is_digit digits"
      and "(if negative then - int (decimal_value digits) else int (decimal_value digits))
             \<notin> {- (2 ^ 63) ..< 2 ^ 63}"
      and "m_Members opt = IntOption v hasDefault d"
      and "HasMetaVar opt"
  shows "IOption_Parse r opt (m_Name opt @ ''='' @ (if negative then ''-'' else []) @ digits) False =
           (True, r, opt\<lparr> m_Members := IntOption None hasDefault d, m_WasParsed := True \<rparr>)"
  using assms(4,5) from_chars_out_of_range [OF assms(1-3)]
  by (simp add: IOption_Parse_def ParseArg_def IOption_ParseArg_def ConsumeName_def
      ParseValue_def IntOption_ParseValue_def starts_with_append)

theorem int_overflow_accepted_witness:
  "list_all is_digit ''9223372036854775808'' \<and>
   int (decimal_value ''9223372036854775808'') = 2 ^ 63 \<and>
   IOption_Parse \<lparr> m_Prefix = ''--'', m_ShortPrefix = ''-'', m_ErrorMessage = [] \<rparr>
     (IntOption_ctor ''a'' ''a'' ''A'' []) ''a=9223372036854775808'' False =
   (True, \<lparr> m_Prefix = ''--'', m_ShortPrefix = ''-'', m_ErrorMessage = [] \<rparr>,
    (IntOption_ctor ''a'' ''a'' ''A'' [])
      \<lparr> m_Members := IntOption None False 0, m_WasParsed := True \<rparr>)"
  using int_overflow_accepted
     [of "''9223372036854775808''" False "IntOption_ctor ''a'' ''a'' ''A'' []" "Some 0" False 0
         "\<lparr> m_Prefix = ''--'', m_ShortPrefix = ''-'', m_ErrorMessage = [] \<rparr>"]
  by (simp add: IntOption_ctor_def IOption_ctor_def is_digit_def decimal_value_def HasMetaVar_def)

text \<open>
  C10. The constructor of a choice option with a default index, given a non-empty list
  of candidates and an index that is not below its length, stores the index of the
  last candidate, so that the default value and the value of the unparsed option are
  the last candidate. A choice option whose list of candidates is empty has the empty
  string as value and as default value, whatever its other members are.
\<close>

theorem choice_default_clamped:
  "(choices \<noteq> [] \<and> length choices \<le> defaultChoiceIdx \<longrightarrow>
      m_Members (ChoiceOption_ctor_default name shortName metaVar description choices defaultChoiceIdx)
        = ChoiceOption 0 choices True (length choices - 1) \<and>
      ChoiceOption_GetDefaultValue
        (ChoiceOption_ctor_default name shortName metaVar description choices defaultChoiceIdx)
        = last choices \<and>
      ChoiceOption_GetValue
        (ChoiceOption_ctor_default name shortName metaVar description choices defaultChoiceIdx)
        = last choices) \<and>
   (m_Members opt = ChoiceOption i [] hasDefault d \<longrightarrow>
      ChoiceOption_GetValue opt = [] \<and> ChoiceOption_GetDefaultValue opt = [])"
  by (simp add: ChoiceOption_ctor_default_def IOption_ctor_def WasParsed_def last_conv_nth)

theorem choice_default_clamped_witness:
  "m_Members (ChoiceOption_ctor_default ''op'' ''op'' ''OPERATOR'' [] [''+'', ''-'', ''*'', ''/''] 7)
     = ChoiceOption 0 [''+'', ''-'', ''*'', ''/''] True 3 \<and>
   ChoiceOption_GetDefaultValue
     (ChoiceOption_ctor_default ''op'' ''op'' ''OPERATOR'' [] [''+'', ''-'', ''*'', ''/''] 7) = ''/'' \<and>
   ChoiceOption_GetValue
     (ChoiceOption_ctor_default ''op'' ''op'' ''OPERATOR'' [] [''+'', ''-'', ''*'', ''/''] 7) = ''/'' \<and>
   ChoiceOption_GetValue
     ((ChoiceOption_ctor_default ''op'' ''op'' ''OPERATOR'' [] [] 7)\<lparr> m_WasParsed := True \<rparr>) = [] \<and>
   ChoiceOption_GetDefaultValue
     ((ChoiceOption_ctor_default ''op'' ''op'' ''OPERATOR'' [] [] 7)\<lparr> m_WasParsed := True \<rparr>) = []"
  using choice_default_clamped
     [of "[''+'', ''-'', ''*'', ''/'']" 7 "''op''" "''op''" "''OPERATOR''" "[]"
         "(ChoiceOption_ctor_default ''op'' ''op'' ''OPERATOR'' [] [] 7)\<lparr> m_WasParsed := True \<rparr>"
         0 True 0]
  by (simp add: ChoiceOption_ctor_default_def IOption_ctor_def)

subsection \<open>Whole parses\<close>

text \<open>
  C1. The parser of the example program with the name \<^verbatim>\<open>prog\<close>: integer options
  \<^verbatim>\<open>a\<close> and \<^verbatim>\<open>b\<close> (short names \<^verbatim>\<open>a\<close> and \<^verbatim>\<open>b\<close>, no default, any
  non-empty meta-variable) and the choice \<^verbatim>\<open>op\<close> with candidates \<^verbatim>\<open>+ - * /\<close> and
  default index 0, under the prefixes \<^verbatim>\<open>--\<close> and \<^verbatim>\<open>-\<close>. On the tokens
  \<^verbatim>\<open>prog --a=3 --b=4\<close> the parse succeeds with \<^verbatim>\<open>a\<close> = 3, \<^verbatim>\<open>b\<close> = 4 and
  \<^verbatim>\<open>op\<close> = \<^verbatim>\<open>+\<close>, its default; on \<^verbatim>\<open>prog --a=3\<close> it fails with the message
  \<^verbatim>\<open>Missing option '--b'.\<close>; on \<^verbatim>\<open>prog --a=x --b=4\<close> it fails with the message
  \<^verbatim>\<open>Expected integer for '--a', got 'x'.\<close>
\<close>

theorem math_parser_scenarios:
  assumes "metaVarA \<noteq> []" and "metaVarB \<noteq> []"
  shows
    "(\<exists>r' p'.
        Parse (fst (math_parser ''prog'' metaVarA metaVarB))
              (snd (math_parser ''prog'' metaVarA metaVarB))
              [''prog'', ''--a=3'', ''--b=4''] = Some (True, r', p') \<and>
        \<not> HasError r' \<and>
        IntOption_GetValue (m_Options p' ! 0) = Some 3 \<and>
        IntOption_GetValue (m_Options p' ! 1) = Some 4 \<and>
        \<not> WasParsed (m_Options p' ! 2) \<and>
        ChoiceOption_GetValue (m_Options p' ! 2) = ''+'') \<and>
     (\<exists>r' p'.
        Parse (fst (math_parser ''prog'' metaVarA metaVarB))
              (snd (math_parser ''prog'' metaVarA metaVarB))
              [''prog'', ''--a=3''] = Some (False, r', p') \<and>
        GetError r' = ''Missing option '' @ apostrophe @ ''--b'' @ apostrophe @ ''.'') \<and>
     (\<exists>r' p'.
        Parse (fst (math_parser ''prog'' metaVarA metaVarB))
              (snd (math_parser ''prog'' metaVarA metaVarB))
              [''prog'', ''--a=x'', ''--b=4''] = Some (False, r', p') \<and>
        GetError r' = ''Expected integer for '' @ apostrophe @ ''--a'' @ apostrophe
                      @ '', got '' @ apostrophe @ ''x'' @ apostrophe @ ''.'')"
  using assms
  by (simp add: math_parser_def root_defs option_defs argument_defs parser_defs)

theorem math_parser_scenarios_witness:
  "(\<exists>r' p'.
      Parse (fst (math_parser ''prog'' ''A'' ''B'')) (snd (math_parser ''prog'' ''A'' ''B''))
            [''prog'', ''--a=3'', ''--b=4''] = Some (True, r', p') \<and>
      \<not> HasError r' \<and>
      IntOption_GetValue (m_Options p' ! 0) = Some 3 \<and>
      IntOption_GetValue (m_Options p' ! 1) = Some 4 \<and>
      \<not> WasParsed (m_Options p' ! 2) \<and>
      ChoiceOption_GetValue (m_Options p' ! 2) = ''+'') \<and>
   (\<exists>r' p'.
      Parse (fst (math_parser ''prog'' ''A'' ''B'')) (snd (math_parser ''prog'' ''A'' ''B''))
            [''prog'', ''--a=3''] = Some (False, r', p') \<and>
      GetError r' = ''Missing option '' @ apostrophe @ ''--b'' @ apostrophe @ ''.'') \<and>
   (\<exists>r' p'.
      Parse (fst (math_parser ''prog'' ''A'' ''B'')) (snd (math_parser ''prog'' ''A'' ''B''))
            [''prog'', ''--a=x'', ''--b=4''] = Some (False, r', p') \<and>
      GetError r' = ''Expected integer for '' @ apostrophe @ ''--a'' @ apostrophe
                    @ '', got '' @ apostrophe @ ''x'' @ apostrophe @ ''.'')"
  using math_parser_scenarios [of "''A''" "''B''"] by simp

text \<open>
  C2 (the claim as it stands fails). The claim: on the tokens \<^verbatim>\<open>prog sub hello\<close> the
  root with the subcommand \<^verbatim>\<open>sub\<close> matches the child, sets the child's argument to
  \<^verbatim>\<open>hello\<close>, and the root's own \<^verbatim>\<open>m_WasUsed\<close> remains false. After the parse the
  root's \<^verbatim>\<open>m_WasUsed\<close> is true.
\<close>

theorem sub_parser_root_used:
  "map_option (m_WasUsed \<circ> snd \<circ> snd)
     (Parse (fst sub_parser) (snd sub_parser) [''prog'', ''sub'', ''hello'']) = Some True"
  by (simp add: sub_parser_def root_defs option_defs argument_defs parser_defs)

text \<open>
  C2 (amended). On the tokens \<^verbatim>\<open>prog sub hello\<close> the parse succeeds without error,
  the child \<^verbatim>\<open>sub\<close> is used and its argument is \<^verbatim>\<open>hello\<close>, and the root's own
  \<^verbatim>\<open>m_WasUsed\<close> is true: it is set as soon as the root's name has matched.
\<close>

theorem sub_parser_dispatch:
  "\<exists>r' p' sub'.
     Parse (fst sub_parser) (snd sub_parser) [''prog'', ''sub'', ''hello''] = Some (True, r', p') \<and>
     \<not> HasError r' \<and>
     m_Commands p' = [sub'] \<and>
     m_WasUsed sub' \<and>
     m_WasParsed_arg (m_Arguments sub' ! 0) \<and>
     StrArgument_GetValue (m_Arguments sub' ! 0) = ''hello'' \<and>
     m_WasUsed p'"
  by (simp add: sub_parser_def root_defs option_defs argument_defs parser_defs)

subsection \<open>Tokens with an option prefix\<close>

text \<open>An option whose \<^verbatim>\<open>Parse\<close> returns false is unchanged, and the error slot is
  unchanged unless it now holds an error.\<close>

lemma ParseValue_False:
  "ParseValue r opt val = (False, r1, opt1) \<Longrightarrow> opt1 = opt \<and> HasError r1"
  by (auto simp: ParseValue_def IntOption_ParseValue_def StrOption_ParseValue_def
      ChoiceOption_ParseValue_def CollectionOption_ParseValue_def HasError_def SetError_def
      split: OptionMembers.splits prod.splits if_splits option.splits)

lemma IOption_ParseArg_False:
  "IOption_ParseArg r opt arg isShort = (False, r1, opt1) \<Longrightarrow>
   opt1 = opt \<and> (r1 = r \<or> HasError r1)"
  by (auto simp: IOption_ParseArg_def dest: ParseValue_False split: prod.splits if_splits bool.splits)

lemma FlagOption_ParseArg_False:
  "FlagOption_ParseArg r opt arg isShort = (False, r1, opt1) \<Longrightarrow> opt1 = opt \<and> r1 = r"
  by (auto simp: FlagOption_ParseArg_def split: prod.splits if_splits bool.splits)

lemma IOption_Parse_False:
  "IOption_Parse r opt arg isShort = (False, r1, opt1) \<Longrightarrow>
   opt1 = opt \<and> (r1 = r \<or> HasError r1)"
  by (auto simp: IOption_Parse_def ParseArg_def
      dest: IOption_ParseArg_False FlagOption_ParseArg_False
      split: prod.splits bool.splits OptionMembers.splits)

lemma declines_Parse:
  "declines r opt arg isShort \<Longrightarrow> IOption_Parse r opt arg isShort = (False, r, opt)"
  using IOption_Parse_False [of r opt arg isShort]
  by (cases "IOption_Parse r opt arg isShort") (auto simp: declines_def)

lemma scan_options_unclaimed:
  assumes "\<not> HasError r"
      and "list_all (\<lambda>opt. declines r opt arg isShort \<and> (same \<longrightarrow> declines r opt arg (\<not> isShort))) opts"
  shows "scan_options r opts arg isShort same = (NoOption, r, opts)"
  using assms
  by (induction opts) (auto simp: declines_Parse)

lemma IPositionalArgument_Parse_result:
  "IPositionalArgument_Parse r a arg = (ok, r1, a1) \<Longrightarrow>
   ok \<and> r1 = r \<and> IsVariadic a1 = IsVariadic a"
  by (auto simp: IPositionalArgument_Parse_def ParseArg_arg_def IsVariadic_def
      split: ArgumentMembers.splits)

lemma ParseCommands_no_name:
  assumes "\<not> HasError r" and "list_all (\<lambda>cmd. m_Name_cmd cmd \<noteq> front) cmds"
  shows "ParseCommands r cmds front rest = (NoCommand, r, cmds)"
  using assms by (induction cmds) auto

lemma set_Commands_same: "set_Commands p (m_Commands p) = p"
  by (cases p) (simp add: set_Commands_def)

lemma ParseArgs_selected_form:
  "fullArg \<noteq> ''--'' \<Longrightarrow>
   ParseArgs r p False positionalIdx (fullArg # rest) =
     (case selected_form r fullArg of
        Some isShortPrefix \<Rightarrow>
          (case match_option r p fullArg (without_prefix r fullArg) isShortPrefix of
             Inl res \<Rightarrow> res
           | Inr (r1, p1) \<Rightarrow> ParseArgs r1 p1 False positionalIdx rest)
      | None \<Rightarrow>
          (case ParseCommands r (m_Commands p) fullArg rest of
             (CommandReturnTrue, r1, cmds1) \<Rightarrow> (True, r1, set_Commands p cmds1)
           | (CommandReturnFalse, r1, cmds1) \<Rightarrow> (False, r1, set_Commands p cmds1)
           | (NoCommand, r1, cmds1) \<Rightarrow>
               ParseArgs r1 (set_Commands p cmds1) True positionalIdx (fullArg # rest)))"
  by (simp add: selected_form_def without_prefix_def
      split: prod.splits commands_result.splits)

lemma selected_form_option_prefix:
  "has_option_prefix r fullArg = (selected_form r fullArg \<noteq> None)"
  by (auto simp: has_option_prefix_def selected_form_def)

text \<open>
  C5 (the claim as it stands fails). The claim: a token with a leading dash that no
  option claims and no subcommand matches is routed as positional input, and an error
  arises only when the declared positional count is exceeded. The parser of
  \<^verbatim>\<open>00-hello\<close> has no option, no subcommand and one positional argument; on the
  tokens \<^verbatim>\<open>prog -x\<close> it fails with \<^verbatim>\<open>Unknown option '-x'.\<close> and its argument is
  not parsed.
\<close>

theorem dash_token_not_positional:
  "Parse (fst (hello_parser ''prog'')) (snd (hello_parser ''prog'')) [''prog'', ''-x''] =
     Some (False,
           SetError (fst (hello_parser ''prog''))
             (''Unknown option '' @ apostrophe @ ''-x'' @ apostrophe @ ''.''),
           set_WasUsed (snd (hello_parser ''prog'')) True) \<and>
   map_option (map m_WasParsed_arg \<circ> m_Arguments \<circ> snd \<circ> snd)
     (Parse (fst (hello_parser ''prog'')) (snd (hello_parser ''prog'')) [''prog'', ''-x'']) =
     Some [False]"
  by (simp add: hello_parser_def root_defs option_defs argument_defs parser_defs)


text \<open>
  C5 (amended). Before positional-only mode, a token other than \<^verbatim>\<open>--\<close> that has an
  option prefix (it starts with the long prefix, or with the short prefix when that is
  not empty) and that every option of the node declines, met with an empty error slot,
  ends the parse with the error \<^verbatim>\<open>Unknown option '<token>'.\<close>; the node's options,
  subcommands and positional arguments are as before. A token goes to the positional
  argument at the cursor in two cases. In positional-only mode every token does, with a
  dash or without; the token \<^verbatim>\<open>--\<close> switches that mode on. Before that mode, a
  token other than \<^verbatim>\<open>--\<close> without an option prefix (as a token with a dash is when
  the short prefix is empty) that is no subcommand's name, met with an empty error slot,
  is handled as in positional-only mode, which it switches on. Where a token goes to the
  positional arguments, the error \<^verbatim>\<open>Unexpected positional argument '<token>'.\<close>
  arises exactly when the cursor is past the declared arguments.
\<close>

theorem unclaimed_option_token_is_an_error:
  "(\<not> HasError r \<and> fullArg \<noteq> ''--'' \<and> has_option_prefix r fullArg \<and>
    unclaimed r (m_Options p) fullArg \<longrightarrow>
      ParseArgs r p False positionalIdx (fullArg # rest) =
        (False,
         SetError r (''Unknown option '' @ apostrophe @ fullArg @ apostrophe @ ''.''),
         p)) \<and>
   ParseArgs r p True positionalIdx (fullArg # rest) =
     (if length (m_Arguments p) \<le> positionalIdx
      then (False,
            SetError r (''Unexpected positional argument '' @ apostrophe @ fullArg
                        @ apostrophe @ ''.''),
            p)
      else ParseArgs r
             (set_Arguments p
                ((m_Arguments p)
                   [positionalIdx :=
                      snd (snd (IPositionalArgument_Parse r (m_Arguments p ! positionalIdx) fullArg))]))
             True
             (if IsVariadic (m_Arguments p ! positionalIdx) then positionalIdx
              else positionalIdx + 1)
             rest) \<and>
   ParseArgs r p False positionalIdx (''--'' # rest) = ParseArgs r p True positionalIdx rest \<and>
   (\<not> HasError r \<and> fullArg \<noteq> ''--'' \<and> \<not> has_option_prefix r fullArg \<and>
    list_all (\<lambda>cmd. m_Name_cmd cmd \<noteq> fullArg) (m_Commands p) \<longrightarrow>
      ParseArgs r p False positionalIdx (fullArg # rest) =
        ParseArgs r p True positionalIdx (fullArg # rest))"
proof (intro conjI impI)
  assume a: "\<not> HasError r \<and> fullArg \<noteq> ''--'' \<and> has_option_prefix r fullArg \<and>
             unclaimed r (m_Options p) fullArg"
  show "ParseArgs r p False positionalIdx (fullArg # rest) =
          (False, SetError r (''Unknown option '' @ apostrophe @ fullArg @ apostrophe @ ''.''), p)"
  proof (cases "starts_with fullArg (GetPrefix r)")
    case True
    with a have "scan_options r (m_Options p) (drop (length (GetPrefix r)) fullArg) False
                   (GetShortPrefix r = GetPrefix r) = (NoOption, r, m_Options p)"
      by (intro scan_options_unclaimed) (simp_all add: unclaimed_def without_prefix_def)
    with a True show ?thesis
      by (simp add: match_option_def set_Options_same)
  next
    case False
    with a have "scan_options r (m_Options p) (drop (length (GetShortPrefix r)) fullArg) True
                   (GetShortPrefix r = GetPrefix r) = (NoOption, r, m_Options p)"
      by (intro scan_options_unclaimed) (simp_all add: unclaimed_def without_prefix_def)
    with a False show ?thesis
      by (simp add: match_option_def set_Options_same has_option_prefix_def)
  qed
next
  show "ParseArgs r p True positionalIdx (fullArg # rest) =
     (if length (m_Arguments p) \<le> positionalIdx
      then (False,
            SetError r (''Unexpected positional argument '' @ apostrophe @ fullArg
                        @ apostrophe @ ''.''),
            p)
      else ParseArgs r
             (set_Arguments p
                ((m_Arguments p)
                   [positionalIdx :=
                      snd (snd (IPositionalArgument_Parse r (m_Arguments p ! positionalIdx) fullArg))]))
             True
             (if IsVariadic (m_Arguments p ! positionalIdx) then positionalIdx
              else positionalIdx + 1)
             rest)"
    by (auto simp: route_positional_def dest: IPositionalArgument_Parse_result
        split: prod.splits bool.splits)
next
  show "ParseArgs r p False positionalIdx (''--'' # rest) = ParseArgs r p True positionalIdx rest"
    by simp
next
  assume a: "\<not> HasError r \<and> fullArg \<noteq> ''--'' \<and> \<not> has_option_prefix r fullArg \<and>
             list_all (\<lambda>cmd. m_Name_cmd cmd \<noteq> fullArg) (m_Commands p)"
  then have "ParseCommands r (m_Commands p) fullArg rest = (NoCommand, r, m_Commands p)"
    by (intro ParseCommands_no_name) simp_all
  moreover from a have "selected_form r fullArg = None"
    by (simp add: selected_form_option_prefix)
  ultimately show "ParseArgs r p False positionalIdx (fullArg # rest) =
                     ParseArgs r p True positionalIdx (fullArg # rest)"
    using a by (simp add: ParseArgs_selected_form set_Commands_same del: ParseArgs.simps)
qed

theorem unclaimed_option_token_is_an_error_witness:
  "ParseArgs (fst (math_parser ''prog'' ''A'' ''B'')) (snd (math_parser ''prog'' ''A'' ''B''))
     False 0 [''-x''] =
     (False,
      SetError (fst (math_parser ''prog'' ''A'' ''B''))
        (''Unknown option '' @ apostrophe @ ''-x'' @ apostrophe @ ''.''),
      snd (math_parser ''prog'' ''A'' ''B'')) \<and>
   ParseArgs (fst (hello_parser ''prog'')) (snd (hello_parser ''prog'')) True 0 [''-x''] =
     (True, fst (hello_parser ''prog''),
      set_Arguments (snd (hello_parser ''prog''))
        [(StrArgument_ctor ''USER'' ''Greets USER.'')
           \<lparr> m_WasParsed_arg := True, m_Members_arg := StrArgument ''-x'' False [] \<rparr>]) \<and>
   ParseArgs (fst (hello_parser ''prog'')) (snd (hello_parser ''prog'')) True 1 [''-x''] =
     (False,
      SetError (fst (hello_parser ''prog''))
        (''Unexpected positional argument '' @ apostrophe @ ''-x'' @ apostrophe @ ''.''),
      snd (hello_parser ''prog'')) \<and>
   ParseArgs (fst (hello_parser ''prog'')) (snd (hello_parser ''prog'')) False 0 [''--'', ''-x''] =
     (True, fst (hello_parser ''prog''),
      set_Arguments (snd (hello_parser ''prog''))
        [(StrArgument_ctor ''USER'' ''Greets USER.'')
           \<lparr> m_WasParsed_arg := True, m_Members_arg := StrArgument ''-x'' False [] \<rparr>]) \<and>
   ParseArgs (fst (ArgParser_ctor ''prog'' [] ''--'' []))
     (AddArgument (AddOption (snd (ArgParser_ctor ''prog'' [] ''--'' []))
        (FlagOption_ctor ''verbose'' ''v'' [] False)) (StrArgument_ctor ''FILE'' []))
     False 0 [''-v''] =
     (True, fst (ArgParser_ctor ''prog'' [] ''--'' []),
      set_Arguments
        (AddOption (snd (ArgParser_ctor ''prog'' [] ''--'' []))
           (FlagOption_ctor ''verbose'' ''v'' [] False))
        [(StrArgument_ctor ''FILE'' [])
           \<lparr> m_WasParsed_arg := True, m_Members_arg := StrArgument ''-v'' False [] \<rparr>])"
  using unclaimed_option_token_is_an_error
          [of "fst (math_parser ''prog'' ''A'' ''B'')" "''-x''"
              "snd (math_parser ''prog'' ''A'' ''B'')" 0 "[]"]
        unclaimed_option_token_is_an_error
          [of "fst (hello_parser ''prog'')" "''-x''" "snd (hello_parser ''prog'')" 0 "[]"]
        unclaimed_option_token_is_an_error
          [of "fst (hello_parser ''prog'')" "''-x''" "snd (hello_parser ''prog'')" 1 "[]"]
        unclaimed_option_token_is_an_error
          [of "fst (hello_parser ''prog'')" "''-x''" "snd (hello_parser ''prog'')" 0 "[''-x'']"]
        unclaimed_option_token_is_an_error
          [of "fst (ArgParser_ctor ''prog'' [] ''--'' [])" "''-v''"
              "AddArgument (AddOption (snd (ArgParser_ctor ''prog'' [] ''--'' []))
                 (FlagOption_ctor ''verbose'' ''v'' [] False)) (StrArgument_ctor ''FILE'' [])"
              0 "[]"]
  by (simp add: hello_parser_def math_parser_def has_option_prefix_def unclaimed_def
      without_prefix_def declines_def root_defs option_defs argument_defs parser_defs)

subsection \<open>Repeated options\<close>




lemma scan_options_skip:
  assumes "\<not> HasError r"
      and "list_all (\<lambda>opt. declines r opt arg isShort \<and> (same \<longrightarrow> declines r opt arg (\<not> isShort)))
             before"
      and "IOption_Parse r opt arg isShort = (True, r1, opt1)"
  shows "scan_options r (before @ opt # after) arg isShort same =
           (HasParsedOption, r1, before @ opt1 # after)"
  using assms
  by (induction before) (auto simp: declines_Parse)










subsection \<open>Identical prefixes\<close>

lemma run_attempts_shift:
  "run_attempts r (opt # opts) arg (map (\<lambda>(i, isShort). (Suc i, isShort)) attempts) =
     (case run_attempts r opts arg attempts of (res, r1, opts1) \<Rightarrow> (res, r1, opt # opts1))"
  by (induction attempts arbitrary: r opts) (auto split: prod.splits bool.splits)

lemma attempt_order_Cons:
  "attempt_order (opt # opts) isShortPrefix =
     (0, isShortPrefix) # (0, \<not> isShortPrefix) #
     map (\<lambda>(i, isShort). (Suc i, isShort)) (attempt_order opts isShortPrefix)"
proof -
  have "[0..<length (opt # opts)] = 0 # map Suc [0..<length opts]"
    by (simp add: upt_conv_Cons map_Suc_upt del: upt_Suc)
  then show ?thesis
    by (simp add: attempt_order_def map_concat comp_def del: upt_Suc)
qed

lemma scan_options_attempts:
  "scan_options r opts arg isShortPrefix True =
     run_attempts r opts arg (attempt_order opts isShortPrefix)"
proof (induction opts arbitrary: r)
  case Nil
  show ?case by (simp add: attempt_order_def)
next
  case (Cons opt opts)
  show ?case
    by (auto simp: attempt_order_Cons run_attempts_shift Cons.IH
        split: prod.splits bool.splits)
qed

lemma run_attempts_first_match:
  assumes "list_all (\<lambda>(j, isShort). declines r (opts ! j) arg isShort) earlier"
      and "IOption_Parse r (opts ! i) arg isShort = (True, r1, opt1)"
  shows "run_attempts r opts arg (earlier @ (i, isShort) # later) =
           (HasParsedOption, r1, opts[i := opt1])"
  using assms
proof (induction earlier)
  case Nil
  then show ?case by simp
next
  case (Cons a earlier)
  obtain j g where a: "a = (j, g)" by (cases a)
  with Cons.prems have d: "declines r (opts ! j) arg g" by simp
  then have "IOption_Parse r (opts ! j) arg g = (False, r, opts ! j)"
    by (rule declines_Parse)
  moreover from d have "\<not> HasError r"
    using declines_Parse [OF d] by (simp add: declines_def)
  ultimately show ?case
    using Cons a by simp
qed


lemma selected_form_same_prefixes:
  "GetShortPrefix r = GetPrefix r \<Longrightarrow> selected_form r fullArg \<noteq> Some True"
  by (simp add: selected_form_def)

text \<open>
  C6 (the claim as it stands fails). The claim: with identical prefixes the scan tries
  for each option first the form selected by the matched prefix and then the opposite
  one, so that an option without a short name can still match by its long name through
  the branch of the short prefix. With both prefixes \<^verbatim>\<open>-\<close> the token
  \<^verbatim>\<open>-name=x\<close> takes the branch of the long prefix, and with identical prefixes no
  token takes the branch of the short prefix.
\<close>

theorem short_prefix_branch_never_taken:
  "selected_form (fst (ArgParser_ctor ''prog'' [] ''-'' ''-'')) ''-name=x'' = Some False \<and>
   \<not> (\<exists>r fullArg. GetShortPrefix r = GetPrefix r \<and> selected_form r fullArg = Some True)"
  by (simp add: selected_form_def ArgParser_ctor_def GetPrefix_def GetShortPrefix_def)

text \<open>
  C6 (amended). With the flag for identical prefixes set, the scan makes its attempts in
  the order of \<open>attempt_order\<close>: for each option in declaration order, the selected
  form and then the opposite form. When the long and the short prefix of the parser are
  equal, every token with an option prefix (other than \<^verbatim>\<open>--\<close>, before
  positional-only mode) takes the branch of the long prefix, no token takes the branch of
  the short prefix, and the loop sends the token through that scan with the long form
  selected: for each option first the long form, then the short form; it goes on,
  returns false or reports an unknown option accordingly. The first attempt in the order
  that returns true wins when the attempts before it were declined. So an option, with a
  short name or without, that parses the token in the long form is the one that takes
  it when the options declared before it decline it in both forms.
\<close>

theorem identical_prefixes_try_both_forms:
  "scan_options r opts arg isShortPrefix True =
     run_attempts r opts arg (attempt_order opts isShortPrefix) \<and>
   (GetShortPrefix r = GetPrefix r \<and> fullArg \<noteq> ''--'' \<and> has_option_prefix r fullArg \<longrightarrow>
      selected_form r fullArg = Some False \<and>
      ParseArgs r p False positionalIdx (fullArg # rest) =
        (case run_attempts r (m_Options p) (drop (length (GetPrefix r)) fullArg)
                (attempt_order (m_Options p) False) of
           (HasParsedOption, r1, opts1) \<Rightarrow>
             ParseArgs r1 (set_Options p opts1) False positionalIdx rest
         | (ScanReturnFalse, r1, opts1) \<Rightarrow> (False, r1, set_Options p opts1)
         | (NoOption, r1, opts1) \<Rightarrow>
             (False,
              SetError r1 (''Unknown option '' @ apostrophe @ fullArg @ apostrophe @ ''.''),
              set_Options p opts1))) \<and>
   (list_all (\<lambda>(j, isShort). declines r (opts ! j) arg isShort) earlier \<and>
    IOption_Parse r (opts ! i) arg isShort = (True, r2, opt2) \<longrightarrow>
      run_attempts r opts arg (earlier @ (i, isShort) # later) =
        (HasParsedOption, r2, opts[i := opt2])) \<and>
   (GetShortPrefix r = GetPrefix r \<longrightarrow> selected_form r fullArg \<noteq> Some True) \<and>
   (fullArg \<noteq> ''--'' \<and> selected_form r fullArg = Some form \<longrightarrow>
      ParseArgs r p False positionalIdx (fullArg # rest) =
        (case match_option r p fullArg (without_prefix r fullArg) form of
           Inl res \<Rightarrow> res
         | Inr (r1, p1) \<Rightarrow> ParseArgs r1 p1 False positionalIdx rest)) \<and>
   (GetShortPrefix r = GetPrefix r \<and> \<not> HasError r \<and> fullArg \<noteq> ''--'' \<and>
    starts_with fullArg (GetPrefix r) \<and>
    m_Options p = before @ opt # after \<and>
    list_all (\<lambda>other. declines r other (drop (length (GetPrefix r)) fullArg) False \<and>
                     declines r other (drop (length (GetPrefix r)) fullArg) True) before \<and>
    IOption_Parse r opt (drop (length (GetPrefix r)) fullArg) False = (True, r3, opt3) \<longrightarrow>
      ParseArgs r p False positionalIdx (fullArg # rest) =
        ParseArgs r3 (set_Options p (before @ opt3 # after)) False positionalIdx rest)"
proof (intro conjI impI)
  show "scan_options r opts arg isShortPrefix True =
          run_attempts r opts arg (attempt_order opts isShortPrefix)"
    by (rule scan_options_attempts)
next
  assume a: "GetShortPrefix r = GetPrefix r \<and> fullArg \<noteq> ''--'' \<and> has_option_prefix r fullArg"
  then have long: "starts_with fullArg (GetPrefix r)"
    by (auto simp: has_option_prefix_def)
  then show "selected_form r fullArg = Some False"
    by (simp add: selected_form_def)
  obtain res r1 opts1 where run:
    "run_attempts r (m_Options p) (drop (length (GetPrefix r)) fullArg)
       (attempt_order (m_Options p) False) = (res, r1, opts1)"
    by (cases "run_attempts r (m_Options p) (drop (length (GetPrefix r)) fullArg)
                 (attempt_order (m_Options p) False)") auto
  then have "scan_options r (m_Options p) (drop (length (GetPrefix r)) fullArg) False
               (GetShortPrefix r = GetPrefix r) = (res, r1, opts1)"
    using a by (simp add: scan_options_attempts)
  with a long run
  show "ParseArgs r p False positionalIdx (fullArg # rest) =
        (case run_attempts r (m_Options p) (drop (length (GetPrefix r)) fullArg)
                (attempt_order (m_Options p) False) of
           (HasParsedOption, r1, opts1) \<Rightarrow>
             ParseArgs r1 (set_Options p opts1) False positionalIdx rest
         | (ScanReturnFalse, r1, opts1) \<Rightarrow> (False, r1, set_Options p opts1)
         | (NoOption, r1, opts1) \<Rightarrow>
             (False,
              SetError r1 (''Unknown option '' @ apostrophe @ fullArg @ apostrophe @ ''.''),
              set_Options p opts1))"
    by (cases res) (simp_all add: match_option_def)
next
  assume "list_all (\<lambda>(j, isShort). declines r (opts ! j) arg isShort) earlier \<and>
          IOption_Parse r (opts ! i) arg isShort = (True, r2, opt2)"
  then show "run_attempts r opts arg (earlier @ (i, isShort) # later) =
               (HasParsedOption, r2, opts[i := opt2])"
    by (intro run_attempts_first_match) simp_all
next
  assume "GetShortPrefix r = GetPrefix r"
  then show "selected_form r fullArg \<noteq> Some True"
    by (rule selected_form_same_prefixes)
next
  assume "fullArg \<noteq> ''--'' \<and> selected_form r fullArg = Some form"
  then show "ParseArgs r p False positionalIdx (fullArg # rest) =
        (case match_option r p fullArg (without_prefix r fullArg) form of
           Inl res \<Rightarrow> res
         | Inr (r1, p1) \<Rightarrow> ParseArgs r1 p1 False positionalIdx rest)"
    by (simp add: ParseArgs_selected_form del: ParseArgs.simps)
next
  assume a: "GetShortPrefix r = GetPrefix r \<and> \<not> HasError r \<and> fullArg \<noteq> ''--'' \<and>
    starts_with fullArg (GetPrefix r) \<and>
    m_Options p = before @ opt # after \<and>
    list_all (\<lambda>other. declines r other (drop (length (GetPrefix r)) fullArg) False \<and>
                     declines r other (drop (length (GetPrefix r)) fullArg) True) before \<and>
    IOption_Parse r opt (drop (length (GetPrefix r)) fullArg) False = (True, r3, opt3)"
  then have "scan_options r (before @ opt # after) (drop (length (GetPrefix r)) fullArg) False
               (GetShortPrefix r = GetPrefix r) = (HasParsedOption, r3, before @ opt3 # after)"
    by (intro scan_options_skip) (simp_all add: list_all_iff)
  with a show "ParseArgs r p False positionalIdx (fullArg # rest) =
        ParseArgs r3 (set_Options p (before @ opt3 # after)) False positionalIdx rest"
    by (simp add: match_option_def)
qed

theorem identical_prefixes_try_both_forms_witness:
  "scan_options (fst (ArgParser_ctor ''prog'' [] ''-'' ''-''))
     [FlagOption_ctor ''verbose'' ''v'' [] False, StrOption_ctor ''name'' [] ''NAME'' []]
     ''name=x'' False True =
   run_attempts (fst (ArgParser_ctor ''prog'' [] ''-'' ''-''))
     [FlagOption_ctor ''verbose'' ''v'' [] False, StrOption_ctor ''name'' [] ''NAME'' []]
     ''name=x'' [(0, False), (0, True), (1, False), (1, True)] \<and>
   selected_form (fst (ArgParser_ctor ''prog'' [] ''-'' ''-'')) ''-name=x'' = Some False \<and>
   selected_form (fst (ArgParser_ctor ''prog'' [] ''-'' ''-'')) ''-name=x'' \<noteq> Some True \<and>
   \<not> HasShortName (StrOption_ctor ''name'' [] ''NAME'' []) \<and>
   ParseArgs (fst (ArgParser_ctor ''prog'' [] ''-'' ''-''))
     (AddOption (AddOption (snd (ArgParser_ctor ''prog'' [] ''-'' ''-''))
        (FlagOption_ctor ''verbose'' ''v'' [] False)) (StrOption_ctor ''name'' [] ''NAME'' []))
     False 0 [''-name=x''] =
   (True, fst (ArgParser_ctor ''prog'' [] ''-'' ''-''),
    AddOption (AddOption (snd (ArgParser_ctor ''prog'' [] ''-'' ''-''))
        (FlagOption_ctor ''verbose'' ''v'' [] False))
      ((StrOption_ctor ''name'' [] ''NAME'' [])
         \<lparr> m_WasParsed := True, m_Members := StrOption ''x'' False [] \<rparr>)) \<and>
   run_attempts (fst (ArgParser_ctor ''prog'' [] ''-'' ''-''))
     [FlagOption_ctor ''verbose'' ''v'' [] False, StrOption_ctor ''name'' [] ''NAME'' []]
     ''name=x'' ([(0, False), (0, True)] @ (1, False) # [(1, True)]) =
   (HasParsedOption, fst (ArgParser_ctor ''prog'' [] ''-'' ''-''),
    [FlagOption_ctor ''verbose'' ''v'' [] False,
     (StrOption_ctor ''name'' [] ''NAME'' [])
       \<lparr> m_WasParsed := True, m_Members := StrOption ''x'' False [] \<rparr>])"
  using identical_prefixes_try_both_forms
    [where r = "fst (ArgParser_ctor ''prog'' [] ''-'' ''-'')"
       and opts = "[FlagOption_ctor ''verbose'' ''v'' [] False, StrOption_ctor ''name'' [] ''NAME'' []]"
       and arg = "''name=x''" and isShortPrefix = False and fullArg = "''-name=x''"
       and p = "AddOption (AddOption (snd (ArgParser_ctor ''prog'' [] ''-'' ''-''))
                  (FlagOption_ctor ''verbose'' ''v'' [] False)) (StrOption_ctor ''name'' [] ''NAME'' [])"
       and positionalIdx = 0 and rest = "[]"
       and earlier = "[(0, False), (0, True)]" and i = 1 and isShort = False
       and ?r2.0 = "fst (ArgParser_ctor ''prog'' [] ''-'' ''-'')"
       and ?opt2.0 = "(StrOption_ctor ''name'' [] ''NAME'' [])
                        \<lparr> m_WasParsed := True, m_Members := StrOption ''x'' False [] \<rparr>"
       and later = "[(1, True)]" and form = False
       and before = "[FlagOption_ctor ''verbose'' ''v'' [] False]"
       and opt = "StrOption_ctor ''name'' [] ''NAME'' []" and after = "[]"
       and ?r3.0 = "fst (ArgParser_ctor ''prog'' [] ''-'' ''-'')"
       and ?opt3.0 = "(StrOption_ctor ''name'' [] ''NAME'' [])
                        \<lparr> m_WasParsed := True, m_Members := StrOption ''x'' False [] \<rparr>"]
  by (simp add: attempt_order_def has_option_prefix_def selected_form_def without_prefix_def
      declines_def root_defs option_defs argument_defs parser_defs)

end
